theory Spec2Isabelle
  imports Main
begin

section \<open>JavaScript values, objects and strings\<close>

text \<open>
  The beacon coordinator of \<^verbatim>\<open>src/boomerang.js\<close> is embedded as pure functions over an
  explicit state. Values stored in beacon variables, callback data and scopes are JavaScript
  values. Numbers are the integer-valued ones; an object is known by its identity only:
  \<open>JObj n\<close> is an object of the page (not an array), \<open>JNew n\<close> is the \<open>n\<close>-th fresh object
  \<^verbatim>\<open>{}\<close> that the coordinator created in place of missing callback data. Strict equality
  \<^verbatim>\<open>===\<close> on these values is equality of the datatype.
\<close>

datatype jsval = JUndefined | JNull | JBool bool | JNum int | JStr string | JObj nat | JNew nat

fun truthy :: "jsval \<Rightarrow> bool" where
  "truthy JUndefined = False"
| "truthy JNull = False"
| "truthy (JBool b) = b"
| "truthy (JNum n) = (n \<noteq> 0)"
| "truthy (JStr s) = (s \<noteq> [])"
| "truthy (JObj n) = True"
| "truthy (JNew n) = True"

text \<open>
  A plain object used as a dictionary is the list of its own enumerable properties in the
  order in which \<^verbatim>\<open>for (k in o)\<close> visits them. Assigning to an existing name keeps its
  place; a new name goes to the end, except that a name that is an array index (a canonical
  decimal numeral below \<open>2^32 - 1\<close>) is visited before every other name, in ascending
  numeric order. Assigning to the name \<^verbatim>\<open>__proto__\<close>, when the object has no own property
  of that name, reaches the setter of \<^verbatim>\<open>Object.prototype\<close> and creates no property. The
  prototype chain itself is not followed: \<open>js_get\<close> is the lookup of an own property, the
  names read are taken not to be members of \<^verbatim>\<open>Object.prototype\<close>, no stored name shadows the
  method \<^verbatim>\<open>hasOwnProperty\<close> that the code calls on its objects, and the change of prototype
  that an assignment to \<^verbatim>\<open>__proto__\<close> makes when the value is an object or \<^verbatim>\<open>null\<close> is left
  out.
\<close>

type_synonym 'v jsobj = "(string \<times> 'v) list"

definition hasOwnProperty :: "'v jsobj \<Rightarrow> string \<Rightarrow> bool" where
  "hasOwnProperty obj k = (case map_of obj k of None \<Rightarrow> False | Some v \<Rightarrow> True)"

definition js_get :: "jsval jsobj \<Rightarrow> string \<Rightarrow> jsval" where
  "js_get obj k = (case map_of obj k of None \<Rightarrow> JUndefined | Some v \<Rightarrow> v)"

definition js_delete :: "string \<Rightarrow> 'v jsobj \<Rightarrow> 'v jsobj" where
  "js_delete k obj = filter (\<lambda>p. fst p \<noteq> k) obj"

definition is_digit :: "char \<Rightarrow> bool" where
  "is_digit c = (c \<in> set ''0123456789'')"

definition digit_val :: "char \<Rightarrow> int" where
  "digit_val c = (case map_of (zip ''0123456789'' [0, 1, 2, 3, 4, 5, 6, 7, 8, 9]) c of
                    None \<Rightarrow> 0 | Some d \<Rightarrow> d)"

definition index_val :: "string \<Rightarrow> int" where
  "index_val s = foldl (\<lambda>n c. 10 * n + digit_val c) 0 s"

definition is_array_index :: "string \<Rightarrow> bool" where
  "is_array_index s =
     (s \<noteq> [] \<and> list_all is_digit s \<and> (s = ''0'' \<or> take 1 s \<noteq> ''0'') \<and>
      index_val s < 4294967295)"

fun insert_index :: "string \<Rightarrow> 'v \<Rightarrow> 'v jsobj \<Rightarrow> 'v jsobj" where
  "insert_index k v [] = [(k, v)]"
| "insert_index k v (p # rest) =
     (if is_array_index (fst p) \<and> index_val (fst p) < index_val k
      then p # insert_index k v rest
      else (k, v) # p # rest)"

definition js_set :: "string \<Rightarrow> 'v \<Rightarrow> 'v jsobj \<Rightarrow> 'v jsobj" where
  "js_set k v obj =
     (if hasOwnProperty obj k then map (\<lambda>p. if fst p = k then (k, v) else p) obj
      else if k = ''__proto__'' then obj
      else if is_array_index k then insert_index k v obj
      else obj @ [(k, v)])"

text \<open>
  Strings are lists of characters. \<^verbatim>\<open>encodeURIComponent\<close> keeps the unreserved characters
  and writes every other byte as \<^verbatim>\<open>%XX\<close>. \<open>number_toString b n\<close> is the numeral of the
  integer \<open>n\<close> in base \<open>b\<close>.
\<close>

definition uri_unreserved :: "char \<Rightarrow> bool" where
  "uri_unreserved c =
     (c \<in> set ''ABCDEFGHIJKLMNOPQRSTUVWXYZabcdefghijklmnopqrstuvwxyz0123456789-_.!~*()''
      \<or> c = CHR 0x27)"

definition hex_digit :: "nat \<Rightarrow> char" where
  "hex_digit n = ''0123456789ABCDEF'' ! (n mod 16)"

definition percent_encode :: "char \<Rightarrow> string" where
  "percent_encode c =
     [CHR ''%'', hex_digit ((of_char c :: nat) div 16), hex_digit ((of_char c :: nat) mod 16)]"

definition encodeURIComponent :: "string \<Rightarrow> string" where
  "encodeURIComponent s =
     concat (map (\<lambda>c. if uri_unreserved c then [c] else percent_encode c) s)"

fun digits_in :: "nat \<Rightarrow> nat \<Rightarrow> string" where
  "digits_in b n =
     (if b < 2 \<or> n < b then [''0123456789abcdefghijklmnopqrstuvwxyz'' ! (n mod 36)]
      else digits_in b (n div b) @ [''0123456789abcdefghijklmnopqrstuvwxyz'' ! (n mod b)])"

definition number_toString :: "nat \<Rightarrow> int \<Rightarrow> string" where
  "number_toString b n = (if n < 0 then CHR ''-'' # digits_in b (nat (- n)) else digits_in b (nat n))"

definition toLowerCase :: "string \<Rightarrow> string" where
  "toLowerCase s =
     map (\<lambda>c. case map_of (zip ''ABCDEFGHIJKLMNOPQRSTUVWXYZ'' ''abcdefghijklmnopqrstuvwxyz'') c of
                 None \<Rightarrow> c | Some l \<Rightarrow> l) s"

fun starts_with :: "string \<Rightarrow> string \<Rightarrow> bool" where
  "starts_with [] s = True"
| "starts_with (p # ps) [] = False"
| "starts_with (p # ps) (c # cs) = (p = c \<and> starts_with ps cs)"

fun contains :: "string \<Rightarrow> string \<Rightarrow> bool" where
  "contains pat [] = (pat = [])"
| "contains pat (c # cs) = (starts_with pat (c # cs) \<or> contains pat cs)"

fun join :: "string \<Rightarrow> string list \<Rightarrow> string" where
  "join sep [] = []"
| "join sep [x] = x"
| "join sep (x # y # ys) = x @ sep @ join sep (y # ys)"

section \<open>The coordinator's state and its environment\<close>

text \<open>
  Exceptions are values: an operation that can throw returns \<open>Inl\<close> of the error, together
  with the state as the statements before the throw left it.
\<close>

datatype error = TypeError | RequestError

datatype xhr_context = PrimaryWindow | BoomerangFrame

datatype xhr_failure = NoFailure | ThrowsOnConstruct | ThrowsOnOpen | ThrowsOnSend

datatype payload = Vars "jsval jsobj" | Value jsval

text \<open>
  \<^verbatim>\<open>BOOMR.setImmediate\<close> hands a callback to the browser (idle callback, \<^verbatim>\<open>setImmediate\<close> or
  a 10 ms timer); the state keeps the callbacks not yet run, in the order they were handed
  over. Three kinds of callback are scheduled by the operations below: the flush itself, the
  \<^verbatim>\<open>page_load_beacon\<close> notification with the object \<open>varsSent\<close>, and a subscriber of
  \<^verbatim>\<open>page_ready\<close> (function, scope, callback data).
\<close>

datatype task =
    RealSendBeaconTask
  | PageLoadBeaconTask "jsval jsobj"
  | CallbackTask nat jsval jsval

text \<open>
  What the coordinator does to the world outside is recorded in order: a subscriber called
  (function, \<^verbatim>\<open>this\<close>, event data, callback data), a public DOM event dispatched, a native
  listener attached for a subscriber, a console warning, and the three transports.
  A subscriber is the page's code: the record of the call is all the model keeps of it.
\<close>

datatype effect =
    Called nat jsval payload jsval
  | DomEvent string payload
  | Listener string nat
  | ConsoleWarn
  | NavigatorSendBeacon string string
  | ImageSrc string
  | XhrOpen xhr_context string string
  | XhrHeader xhr_context string string
  | XhrCredentials xhr_context
  | XhrSend xhr_context string

record handler =
  fn :: nat
  cb_data :: jsval
  scope :: jsval
  once :: bool

text \<open>
  The environment is what the operations read and do not write: the browser, the plugins,
  the session object that plugins maintain, and the built-in functions whose code is not the
  repository's: \<^verbatim>\<open>RegExp\<close>, the serializer of object values, \<^verbatim>\<open>String(n)\<close> for a number of
  magnitude \<open>10^21\<close> or more (exponent notation, with the digits of the floating-point
  number) and \<^verbatim>\<open>String(Object)\<close>, the engine's text of the \<^verbatim>\<open>Object\<close> function.
\<close>

record env =
  serializeForUrl :: "jsval \<Rightarrow> string"
  exponent_String :: "int \<Rightarrow> string"
  constructor_String :: string
  regex_exec :: "string \<Rightarrow> string \<Rightarrow> bool"
  plugins :: "(string \<times> (jsval jsobj \<Rightarrow> bool)) list"
  dom_available :: bool
  doc_URL :: string
  version :: string
  session_enabled :: bool
  session_ID :: string
  session_start :: "int option"
  session_length :: int
  rate_limited :: bool
  visibility :: string
  last_visible :: "int option"
  last_hidden :: "int option"
  now :: int
  platform :: jsval
  vendor :: jsval
  pageId :: string
  in_frame :: bool
  custom_events :: bool
  has_pagehide :: bool
  native_sendBeacon :: bool
  native_sendBeacon_queued :: bool
  has_XMLHttpRequest :: bool
  image_throws :: bool
  xhr_fails :: "xhr_context \<Rightarrow> xhr_failure"

text \<open>
  The private object \<^verbatim>\<open>impl\<close> and the counter \<^verbatim>\<open>BOOMR.beaconsSent\<close>, with the source's
  names (\<^verbatim>\<open>impl.r\<close> is \<open>impl_r\<close>; \<^verbatim>\<open>impl.varPriority["-1"]\<close> and \<^verbatim>\<open>["1"]\<close> are the two
  priority fields). \<open>allocated\<close> counts the fresh objects created for callback data so far,
  \<open>tasks\<close> is the browser's queue and \<open>trace\<close> the effects so far.
\<close>

record boomr =
  beacon_url :: string
  beacon_url_override :: "string option"
  beacon_url_force_https :: bool
  beacon_urls_allowed :: "string list"
  beacon_type :: string
  beacon_auth_key :: "string option"
  beacon_auth_token :: "string option"
  beacon_with_credentials :: bool
  beacon_disable_sendbeacon :: bool
  strip_query_string :: bool
  autorun :: bool
  onloadfired :: bool
  hasSentPageLoadBeacon :: bool
  impl_r :: "string option"
  events :: "handler list jsobj"
  vars :: "jsval jsobj"
  singleBeaconVars :: "jsval jsobj"
  varPriority_first :: "jsval jsobj"
  varPriority_last :: "jsval jsobj"
  errors :: "int jsobj"
  disabled_plugins :: "jsval jsobj"
  beaconQueued :: bool
  beaconsSent :: int
  allocated :: nat
  tasks :: "task list"
  trace :: "effect list"

definition translate_events :: "string jsobj" where
  "translate_events =
     [(''onbeacon'', ''beacon''), (''onconfig'', ''config''), (''onerror'', ''error''),
      (''onxhrerror'', ''xhr_error'')]"

definition public_events :: "string jsobj" where
  "public_events =
     [(''before_beacon'', ''onBeforeBoomerangBeacon''), (''beacon'', ''onBoomerangBeacon''),
      (''onboomerangloaded'', ''onBoomerangLoaded'')]"

definition registered_events :: "string list" where
  "registered_events =
     [''page_ready'', ''page_unload'', ''before_unload'', ''dom_loaded'', ''visibility_changed'',
      ''prerender_to_visible'', ''before_beacon'', ''beacon'', ''page_load_beacon'', ''xhr_load'',
      ''click'', ''form_submit'', ''config'', ''xhr_init'', ''spa_init'', ''spa_navigation'',
      ''spa_cancel'', ''xhr_send'', ''xhr_error'', ''error'', ''netinfo'', ''rage_click'']"

text \<open>The state the script starts from (the literals of \<^verbatim>\<open>impl\<close> and \<^verbatim>\<open>boomr\<close>).\<close>

definition initial :: boomr where
  "initial =
     \<lparr> beacon_url = [], beacon_url_override = None, beacon_url_force_https = True,
       beacon_urls_allowed = [], beacon_type = ''AUTO'', beacon_auth_key = Some ''Authorization'',
       beacon_auth_token = None, beacon_with_credentials = False,
       beacon_disable_sendbeacon = False, strip_query_string = False, autorun = True,
       onloadfired = False, hasSentPageLoadBeacon = False, impl_r = None,
       events = map (\<lambda>e. (e, [])) registered_events, vars = [], singleBeaconVars = [],
       varPriority_first = [], varPriority_last = [], errors = [], disabled_plugins = [],
       beaconQueued = False, beaconsSent = 0, allocated = 0, tasks = [], trace = [] \<rparr>"

definition setImmediate :: "task \<Rightarrow> boomr \<Rightarrow> boomr" where
  "setImmediate t s = s\<lparr>tasks := tasks s @ [t]\<rparr>"

definition emit :: "effect list \<Rightarrow> boomr \<Rightarrow> boomr" where
  "emit es s = s\<lparr>trace := trace s @ es\<rparr>"

section \<open>Variable store\<close>

text \<open>
  \<^verbatim>\<open>addVar(name, value, singleBeacon)\<close>: the first argument is a name or a plain object of
  name/value pairs. The single-use mark is set with the first argument as property key, and
  a property key is the argument converted to a string: a plain object gives
  \<^verbatim>\<open>"[object Object]"\<close>.
\<close>

datatype addvar_arg = Name string | Bulk "jsval jsobj"

fun property_key :: "addvar_arg \<Rightarrow> string" where
  "property_key (Name n) = n"
| "property_key (Bulk obj) = ''[object Object]''"

definition addVar :: "addvar_arg \<Rightarrow> jsval \<Rightarrow> bool \<Rightarrow> boomr \<Rightarrow> boomr" where
  "addVar name val singleBeacon s =
     (let s1 = (case name of
                  Name n \<Rightarrow> s\<lparr>vars := js_set n val (vars s)\<rparr>
                | Bulk obj \<Rightarrow>
                    s\<lparr>vars := fold (\<lambda>k vs. js_set k (js_get obj k) vs) (map fst obj) (vars s)\<rparr>)
      in if singleBeacon
         then s1\<lparr>singleBeaconVars := js_set (property_key name) (JNum 1) (singleBeaconVars s1)\<rparr>
         else s1)"

text \<open>\<^verbatim>\<open>removeVar\<close>: \<open>params\<close> is the list of names, however the caller passed them.\<close>

definition removeVar :: "string list \<Rightarrow> boomr \<Rightarrow> boomr" where
  "removeVar params s =
     fold (\<lambda>k t. if hasOwnProperty (vars t) k then t\<lparr>vars := js_delete k (vars t)\<rparr> else t)
       params s"

definition hasVar :: "string \<Rightarrow> boomr \<Rightarrow> bool" where
  "hasVar name s = hasOwnProperty (vars s) name"

definition setVarPriority :: "string \<Rightarrow> jsval \<Rightarrow> boomr \<Rightarrow> boomr" where
  "setVarPriority name pri s =
     (case pri of
        JNum p \<Rightarrow>
          (if p = - 1 then s\<lparr>varPriority_first := js_set name (JNum 1) (varPriority_first s)\<rparr>
           else if p = 1 then s\<lparr>varPriority_last := js_set name (JNum 1) (varPriority_last s)\<rparr>
           else s)
      | _ \<Rightarrow> s)"

text \<open>
  \<^verbatim>\<open>String(n)\<close> of an integer-valued number: its decimal numeral below \<open>10^21\<close> in magnitude,
  exponent notation from there on.
\<close>

definition js_String :: "env \<Rightarrow> int \<Rightarrow> string" where
  "js_String env n =
     (if \<bar>n\<bar> < 1000000000000000000000 then number_toString 10 n else exponent_String env n)"

definition getUriEncodedVar :: "env \<Rightarrow> string \<Rightarrow> jsval \<Rightarrow> string" where
  "getUriEncodedVar env name val =
     encodeURIComponent name @ ''='' @
     encodeURIComponent
       (case val of
          JUndefined \<Rightarrow> []
        | JNull \<Rightarrow> []
        | JBool b \<Rightarrow> (if b then ''true'' else ''false'')
        | JNum n \<Rightarrow> js_String env n
        | JStr str \<Rightarrow> str
        | JObj n \<Rightarrow> serializeForUrl env (JObj n)
        | JNew n \<Rightarrow> serializeForUrl env (JNew n))"

text \<open>
  \<^verbatim>\<open>getVarsOfPriority(vars, pri)\<close>: the loop over the names of \<open>iterVars\<close>, returning the
  array \<open>url\<close> and the object \<open>vars\<close>, which the loop modifies when \<open>pri\<close> is not 0.
  \<open>pushed_var\<close> is the string the loop pushes for a name.
\<close>

definition pushed_var :: "env \<Rightarrow> jsval jsobj \<Rightarrow> string \<Rightarrow> string" where
  "pushed_var env vs name =
     getUriEncodedVar env name (if js_get vs name = JUndefined then JStr [] else js_get vs name)"

fun priority_loop ::
  "env \<Rightarrow> int \<Rightarrow> string list \<Rightarrow> jsval jsobj \<Rightarrow> string list \<times> jsval jsobj" where
  "priority_loop env pri [] vs = ([], vs)"
| "priority_loop env pri (name # names) vs =
     (if hasOwnProperty vs name
      then (let item = pushed_var env vs name;
                rest = priority_loop env pri names (if pri \<noteq> 0 then js_delete name vs else vs)
            in (item # fst rest, snd rest))
      else priority_loop env pri names vs)"

definition getVarsOfPriority ::
  "env \<Rightarrow> boomr \<Rightarrow> jsval jsobj \<Rightarrow> int \<Rightarrow> string list \<times> jsval jsobj" where
  "getVarsOfPriority env s vs pri =
     (let iterVars = (if pri \<noteq> 0
                      then (if pri = - 1 then map fst (varPriority_first s)
                            else if pri = 1 then map fst (varPriority_last s)
                            else [])
                      else map fst vs)
      in priority_loop env pri iterVars vs)"

text \<open>
  The three calls made by \<^verbatim>\<open>sendBeaconData\<close> and the join: \<open>paramsJoined\<close>, and what is
  left of \<open>data\<close>.
\<close>

definition params_joined :: "env \<Rightarrow> boomr \<Rightarrow> jsval jsobj \<Rightarrow> string \<times> jsval jsobj" where
  "params_joined env s data =
     (let urlFirst = getVarsOfPriority env s data (- 1);
          urlLast = getVarsOfPriority env s (snd urlFirst) 1;
          middle = getVarsOfPriority env s (snd urlLast) 0
      in (join ''&'' (fst urlFirst @ fst middle @ fst urlLast), snd middle))"

section \<open>Event bus\<close>

text \<open>
  An event name is lower-cased and an old name is replaced by its new one. The lookup
  \<^verbatim>\<open>impl.translate_events[e_name]\<close> also finds the two members of \<^verbatim>\<open>Object.prototype\<close>
  with lower-case names: for \<^verbatim>\<open>constructor\<close> the name becomes the \<^verbatim>\<open>Object\<close> function and
  for \<^verbatim>\<open>__proto__\<close> the prototype object, and as a property key each is its string.
\<close>

definition event_name :: "env \<Rightarrow> string \<Rightarrow> string" where
  "event_name env e_name =
     (let e = toLowerCase e_name
      in case map_of translate_events e of
           Some t \<Rightarrow> t
         | None \<Rightarrow>
             (if e = ''constructor'' then constructor_String env
              else if e = ''__proto__'' then ''[object Object]''
              else e))"

definition handlers_of :: "boomr \<Rightarrow> string \<Rightarrow> handler list" where
  "handlers_of s e = (case map_of (events s) e of None \<Rightarrow> [] | Some hs \<Rightarrow> hs)"

text \<open>
  \<^verbatim>\<open>subscribe(e_name, fn, cb_data, cb_scope, once)\<close>. The search for an identical handler
  compares the stored fields with the arguments as passed; the record pushed stores
  \<^verbatim>\<open>cb_data || {}\<close> and \<^verbatim>\<open>cb_scope || null\<close>. The function is known by its identity, and
  \<open>once\<close> by its truth value.
\<close>

definition subscribe ::
  "env \<Rightarrow> string \<Rightarrow> nat \<Rightarrow> jsval \<Rightarrow> jsval \<Rightarrow> bool \<Rightarrow> boomr \<Rightarrow> boomr" where
  "subscribe env e_name f data_arg scope_arg once_arg s =
     (let e = event_name env e_name;
          s1 = (if hasOwnProperty (events s) e then s else s\<lparr>events := js_set e [] (events s)\<rparr>);
          ev = handlers_of s1 e
      in if list_ex (\<lambda>h. fn h = f \<and> cb_data h = data_arg \<and> scope h = scope_arg) ev then s1
         else
           (let s2 = (if truthy data_arg then s1 else s1\<lparr>allocated := Suc (allocated s1)\<rparr>);
                h = \<lparr> fn = f,
                      cb_data = (if truthy data_arg then data_arg else JNew (allocated s1)),
                      scope = (if truthy scope_arg then scope_arg else JNull),
                      once = once_arg \<rparr>;
                s3 = s2\<lparr>events := js_set e (ev @ [h]) (events s2)\<rparr>;
                s4 = (if e = ''page_ready'' \<and> onloadfired s3 \<and> autorun s3
                      then setImmediate (CallbackTask f scope_arg data_arg) s3
                      else s3)
            in if e = ''page_unload''
               then emit [Listener (if has_pagehide env then ''pagehide'' else ''unload'') f,
                          Listener ''beforeunload'' f] s4
               else if e = ''before_unload'' then emit [Listener ''beforeunload'' f] s4
               else s4))"

text \<open>
  \<^verbatim>\<open>impl.fireEvent\<close> in three parts: the public mirror event, the optional flush, and the
  two loops over the handlers (call each one, then drop the \<open>once\<close> handlers).
\<close>

definition fire_public :: "env \<Rightarrow> string \<Rightarrow> payload \<Rightarrow> boomr \<Rightarrow> boomr" where
  "fire_public env e data s =
     (case map_of public_events e of
        None \<Rightarrow> s
      | Some p \<Rightarrow> (if custom_events env then emit [DomEvent p data] s else s))"

definition fire_handlers :: "string \<Rightarrow> payload \<Rightarrow> boomr \<Rightarrow> boomr" where
  "fire_handlers e data s =
     (let handlers = handlers_of s e;
          s1 = emit (map (\<lambda>h. Called (fn h) (scope h) data (cb_data h)) handlers) s
      in s1\<lparr>events := js_set e (filter (\<lambda>h. \<not> once h) handlers) (events s1)\<rparr>)"

text \<open>
  For the names \<^verbatim>\<open>before_beacon\<close> and \<^verbatim>\<open>beacon\<close> no flush is forced; this is the function
  the flush itself calls.
\<close>

definition fireEvent_noflush :: "env \<Rightarrow> string \<Rightarrow> payload \<Rightarrow> boomr \<Rightarrow> boomr" where
  "fireEvent_noflush env e_name data s =
     (let e = event_name env e_name
      in if hasOwnProperty (events s) e then fire_handlers e data (fire_public env e data s)
         else s)"

section \<open>Transport\<close>

definition beaconUrlAllowed :: "env \<Rightarrow> boomr \<Rightarrow> string \<Rightarrow> bool" where
  "beaconUrlAllowed env s url =
     (beacon_urls_allowed s = [] \<or> list_ex (\<lambda>pat. regex_exec env pat url) (beacon_urls_allowed s))"

text \<open>
  \<^verbatim>\<open>sendXhrPostBeacon(xhr, paramsJoined)\<close> on a request object of the given window; the
  object throws at \<^verbatim>\<open>open\<close> or at \<^verbatim>\<open>send\<close> as the environment says.
\<close>

definition sendXhrPostBeacon ::
  "env \<Rightarrow> xhr_context \<Rightarrow> string \<Rightarrow> boomr \<Rightarrow> (error + unit) \<times> boomr" where
  "sendXhrPostBeacon env ctx paramsJoined s =
     (if xhr_fails env ctx = ThrowsOnOpen then (Inl RequestError, s)
      else
        (let s1 = emit [XhrOpen ctx ''POST'' (beacon_url s),
                        XhrHeader ctx ''Content-type'' ''application/x-www-form-urlencoded''] s;
             s2 = (case beacon_auth_token s1 of
                     None \<Rightarrow> s1
                   | Some token \<Rightarrow>
                       (let key = (case beacon_auth_key s1 of None \<Rightarrow> ''Authorization'' | Some k \<Rightarrow> k)
                        in emit [XhrHeader ctx key token] (s1\<lparr>beacon_auth_key := Some key\<rparr>)));
             s3 = (if beacon_with_credentials s2 then emit [XhrCredentials ctx] s2 else s2)
         in if xhr_fails env ctx = ThrowsOnSend then (Inl RequestError, s3)
            else (Inr (), emit [XhrSend ctx paramsJoined] s3)))"

text \<open>
  The request-object branch of \<^verbatim>\<open>sendBeaconData\<close>: the request of the page's window is
  constructed outside the \<^verbatim>\<open>try\<close>; the \<^verbatim>\<open>catch\<close> block constructs the frame's request and
  sends again, with no handler around it.
\<close>

definition xhr_beacon :: "env \<Rightarrow> string \<Rightarrow> boomr \<Rightarrow> (error + bool) \<times> boomr" where
  "xhr_beacon env paramsJoined s =
     (if xhr_fails env PrimaryWindow = ThrowsOnConstruct then (Inl RequestError, s)
      else
        (let first = sendXhrPostBeacon env PrimaryWindow paramsJoined s
         in case fst first of
              Inr u \<Rightarrow> (Inr True, snd first)
            | Inl e \<Rightarrow>
                (if xhr_fails env BoomerangFrame = ThrowsOnConstruct
                 then (Inl RequestError, snd first)
                 else
                   (let second = sendXhrPostBeacon env BoomerangFrame paramsJoined (snd first)
                    in case fst second of
                         Inr u \<Rightarrow> (Inr True, snd second)
                       | Inl e2 \<Rightarrow> (Inl e2, snd second)))))"

text \<open>
  The choice of the mechanism, from \<open>url\<close> (for the image) and \<open>paramsJoined\<close> (for the
  native primitive and the request object).
\<close>

definition transmit :: "env \<Rightarrow> string \<Rightarrow> string \<Rightarrow> boomr \<Rightarrow> (error + bool) \<times> boomr" where
  "transmit env url paramsJoined s =
     (let s1 = (if beacon_type s = ''GET'' \<and> 2000 < length url then emit [ConsoleWarn] s else s);
          useImg = (if beacon_type s = ''GET'' then True
                    else if beacon_type s = ''POST'' \<or> 2000 < length url then False
                    else True);
          native = (native_sendBeacon env \<and> beacon_type s \<noteq> ''GET'' \<and>
                    beacon_auth_token s = None \<and> \<not> beacon_disable_sendbeacon s);
          s2 = (if native then emit [NavigatorSendBeacon (beacon_url s1) (paramsJoined @ ''&sb=1'')] s1
                else s1)
      in if native \<and> native_sendBeacon_queued env then (Inr True, s2)
         else if useImg \<or> \<not> has_XMLHttpRequest env
         then (if image_throws env then (Inr False, s2) else (Inr True, emit [ImageSrc url] s2))
         else xhr_beacon env paramsJoined s2)"

text \<open>
  \<^verbatim>\<open>sendBeaconData(data)\<close>, returning also the object \<open>data\<close> as the call leaves it
  (\<^verbatim>\<open>getVarsOfPriority\<close> deletes the prioritised names from it). \<open>beacon_target\<close> is
  \<^verbatim>\<open>impl.beacon_url_override || impl.beacon_url\<close>, \<open>request_url\<close> the URL built for the image
  and \<open>request_body\<close> the parameter string after the test for \<^verbatim>\<open>http.initiator\<close>.
\<close>

definition beacon_target :: "boomr \<Rightarrow> string" where
  "beacon_target s =
     (case beacon_url_override s of
        None \<Rightarrow> beacon_url s
      | Some u \<Rightarrow> (if u \<noteq> [] then u else beacon_url s))"

definition request_url :: "string \<Rightarrow> string \<Rightarrow> string" where
  "request_url base joined = base @ (if CHR ''?'' \<in> set base then ''&'' else ''?'') @ joined"

definition request_body :: "string \<Rightarrow> string" where
  "request_body joined =
     (if contains ''http.initiator'' joined then joined else joined @ ''&http.initiator=page'')"

definition sendBeaconData ::
  "env \<Rightarrow> jsval jsobj \<Rightarrow> boomr \<Rightarrow> (error + bool) \<times> jsval jsobj \<times> boomr" where
  "sendBeaconData env data s =
     (let s1 = s\<lparr>beacon_url := beacon_target s\<rparr>
      in if beacon_url s1 = [] then (Inr False, data, s1)
         else if \<not> beaconUrlAllowed env s1 (beacon_url s1) then (Inr False, data, s1)
         else if js_get data ''length'' = JNum 0 then (Inr False, data, s1)
         else
           (let s2 = fireEvent_noflush env ''beacon'' (Vars data) s1;
                joined = params_joined env s2 data;
                s3 = (if beacon_url_force_https s2 \<and> starts_with ''//'' (beacon_url s2)
                      then s2\<lparr>beacon_url := ''https:'' @ beacon_url s2\<rparr>
                      else s2);
                url = request_url (beacon_url s3) (fst joined);
                paramsJoined = request_body (fst joined);
                sent = transmit env url paramsJoined s3
            in (fst sent, snd joined, snd sent)))"

section \<open>The flush\<close>

definition plugins_complete :: "env \<Rightarrow> boomr \<Rightarrow> bool" where
  "plugins_complete env s =
     list_all (\<lambda>p. truthy (js_get (disabled_plugins s) (fst p)) \<or> snd p (vars s)) (plugins env)"

definition line_terminator :: "char \<Rightarrow> bool" where
  "line_terminator c = (c = CHR 0x0A \<or> c = CHR 0x0D)"

text \<open>\<^verbatim>\<open>str.replace(/c.*/, rep)\<close> for a character \<open>c\<close>: from its first occurrence to the end of the line.\<close>

definition replace_tail :: "char \<Rightarrow> string \<Rightarrow> string \<Rightarrow> string" where
  "replace_tail c rep str =
     (if c \<in> set str
      then takeWhile (\<lambda>x. x \<noteq> c) str @ rep @
           dropWhile (\<lambda>x. \<not> line_terminator x) (tl (dropWhile (\<lambda>x. x \<noteq> c) str))
      else str)"

text \<open>
  \<^verbatim>\<open>BOOMR.utils.cleanupURL(url)\<close> as the flush calls it (no length limit is passed). A value
  that is neither falsy nor a string has no \<^verbatim>\<open>replace\<close> method.
\<close>

definition cleanupURL :: "bool \<Rightarrow> jsval \<Rightarrow> error + jsval" where
  "cleanupURL strip url =
     (if \<not> truthy url then Inr (JStr [])
      else if strip
      then (case url of JStr u \<Rightarrow> Inr (JStr (replace_tail CHR ''?'' ''?qs-redacted'' u))
            | _ \<Rightarrow> Inl TypeError)
      else Inr url)"

definition is_spa :: "jsval \<Rightarrow> bool" where
  "is_spa initiator = (initiator = JStr ''spa'' \<or> initiator = JStr ''spa_hard'')"

text \<open>The fields \<^verbatim>\<open>pgu\<close>, \<^verbatim>\<open>u\<close> and \<^verbatim>\<open>r\<close>; the two calls of \<^verbatim>\<open>cleanupURL\<close> can throw.\<close>

definition url_fields ::
  "env \<Rightarrow> bool \<Rightarrow> string option \<Rightarrow> bool \<Rightarrow> jsval jsobj \<Rightarrow> (error + unit) \<times> jsval jsobj" where
  "url_fields env strip referrer isSPA vs =
     (let v1 = (if truthy (js_get vs ''pgu'') then vs
                else js_set ''pgu''
                       (JStr (if isSPA then doc_URL env else replace_tail CHR ''#'' [] (doc_URL env))) vs)
      in case cleanupURL strip (js_get v1 ''pgu'') of
           Inl e \<Rightarrow> (Inl e, v1)
         | Inr pgu \<Rightarrow>
             (let v2 = js_set ''pgu'' pgu v1;
                  v3 = (if \<not> truthy (js_get v2 ''u'') \<or> isSPA then js_set ''u'' pgu v2 else v2);
                  v4 = (if js_get v3 ''pgu'' = js_get v3 ''u'' then js_delete ''pgu'' v3 else v3)
              in case referrer of
                   None \<Rightarrow> (Inr (), js_delete ''r'' v4)
                 | Some ref \<Rightarrow>
                     (if ref = [] then (Inr (), js_delete ''r'' v4)
                      else (case cleanupURL strip (JStr ref) of
                              Inl e \<Rightarrow> (Inl e, v4)
                            | Inr cleaned \<Rightarrow> (Inr (), js_set ''r'' cleaned v4)))))"

text \<open>
  Version, session, visibility, platform and page id. \<^verbatim>\<open>Math.round(start / 1000)\<close> of an
  integer is \<open>(start + 500) div 1000\<close>; of an undefined start it is \<^verbatim>\<open>NaN\<close>. The two reads of
  the clock are one instant.
\<close>

definition derived_fields :: "env \<Rightarrow> jsval jsobj \<Rightarrow> jsval jsobj" where
  "derived_fields env vs =
     (let v1 = js_set ''v'' (JStr (version env)) vs;
          v2 = (if session_enabled env
                then js_set ''rt.sl'' (JNum (session_length env))
                      (js_set ''rt.ss'' (case session_start env of None \<Rightarrow> JUndefined | Some t \<Rightarrow> JNum t)
                        (js_set ''rt.si''
                           (JStr (session_ID env @ ''-'' @
                                  (case session_start env of
                                     None \<Rightarrow> ''NaN''
                                   | Some t \<Rightarrow> number_toString 36 ((t + 500) div 1000)))) v1))
                else v1);
          v3 = (if visibility env \<noteq> []
                then (let a = js_set ''vis.st'' (JStr (visibility env)) v2;
                          b = (case last_visible env of
                                 None \<Rightarrow> a
                               | Some t \<Rightarrow> (if t \<noteq> 0 then js_set ''vis.lv'' (JNum (now env - t)) a else a))
                      in case last_hidden env of
                           None \<Rightarrow> b
                         | Some t \<Rightarrow> (if t \<noteq> 0 then js_set ''vis.lh'' (JNum (now env - t)) b else b))
                else v2);
          v4 = js_set ''ua.vnd'' (vendor env) (js_set ''ua.plt'' (platform env) v3)
      in if pageId env \<noteq> [] then js_set ''pid'' (JStr (pageId env)) v4 else v4)"

definition error_lines :: "env \<Rightarrow> int jsobj \<Rightarrow> string list" where
  "error_lines env errs =
     map (\<lambda>p. fst p @ (if 1 < snd p then '' (*'' @ js_String env (snd p) @ '')'' else [])) errs"

definition clone :: "jsval jsobj \<Rightarrow> jsval jsobj" where
  "clone obj = fold (\<lambda>k acc. js_set k (js_get obj k) acc) (map fst obj) []"

text \<open>
  \<^verbatim>\<open>BOOMR.real_sendBeacon()\<close>, in the order of the source: the guards; the URL fields;
  \<open>populate\<close> (version to error summary, with the beacon number); \<open>snapshot\<close> (the
  \<^verbatim>\<open>before_beacon\<close> event, the clone \<open>varsSent\<close>, the removal of the transient and single-use
  variables); \<open>hand_over\<close> (the page-load latch, the rate limit, \<^verbatim>\<open>sendBeaconData\<close>).
\<close>

definition populate :: "env \<Rightarrow> jsval jsobj \<Rightarrow> boomr \<Rightarrow> boomr" where
  "populate env vs s =
     (let n = beaconsSent s + 1;
          v1 = js_set ''n'' (JNum n) (derived_fields env vs);
          v2 = (if in_frame env then js_set ''if'' (JStr []) v1 else v1);
          v3 = (if error_lines env (errors s) = [] then v2
                else js_set ''errors'' (JStr (join [CHR 0x0A] (error_lines env (errors s)))) v2)
      in s\<lparr>beaconsSent := n, vars := v3, errors := []\<rparr>)"

definition snapshot :: "env \<Rightarrow> boomr \<Rightarrow> jsval jsobj \<times> boomr" where
  "snapshot env s =
     (let s1 = fireEvent_noflush env ''before_beacon'' (Vars (vars s)) s;
          varsSent = clone (vars s1);
          s2 = removeVar (map fst (singleBeaconVars s1)) (removeVar [''qt'', ''pgu''] s1)
      in (varsSent, s2\<lparr>singleBeaconVars := []\<rparr>))"

text \<open>
  The closure scheduled for \<^verbatim>\<open>page_load_beacon\<close> holds the object \<open>varsSent\<close> itself, which
  \<^verbatim>\<open>sendBeaconData\<close> goes on to modify; nothing else is scheduled in between, so the task
  is appended with the object as the call leaves it.
\<close>

definition hand_over :: "env \<Rightarrow> bool \<Rightarrow> jsval jsobj \<Rightarrow> boomr \<Rightarrow> (error + bool) \<times> boomr" where
  "hand_over env isPageLoad varsSent s =
     (let latch = (\<not> hasSentPageLoadBeacon s \<and> isPageLoad);
          s1 = (if latch then s\<lparr>hasSentPageLoadBeacon := True\<rparr> else s)
      in if rate_limited env
         then (Inr False, if latch then setImmediate (PageLoadBeaconTask varsSent) s1 else s1)
         else
           (let sent = sendBeaconData env varsSent s1;
                s2 = (if latch
                      then setImmediate (PageLoadBeaconTask (fst (snd sent))) (snd (snd sent))
                      else snd (snd sent))
            in (case fst sent of Inl e \<Rightarrow> Inl e | Inr b \<Rightarrow> Inr True, s2)))"

definition real_sendBeacon :: "env \<Rightarrow> boomr \<Rightarrow> (error + bool) \<times> boomr" where
  "real_sendBeacon env s =
     (if \<not> beaconQueued s then (Inr False, s)
      else
        (let s1 = s\<lparr>beaconQueued := False\<rparr>
         in if \<not> plugins_complete env s1 then (Inr False, s1)
            else if \<not> dom_available env then (Inr False, s1)
            else
              (let initiator = js_get (vars s1) ''http.initiator'';
                   isSPA = is_spa initiator;
                   isPageLoad = (initiator = JUndefined \<or> isSPA);
                   urls = url_fields env (strip_query_string s1) (impl_r s1) isSPA (vars s1)
               in case fst urls of
                    Inl e \<Rightarrow> (Inl e, s1\<lparr>vars := snd urls\<rparr>)
                  | Inr u \<Rightarrow>
                      (let snap = snapshot env (populate env (snd urls) s1)
                       in hand_over env isPageLoad (fst snap) (snd snap)))))"

text \<open>
  \<^verbatim>\<open>BOOMR.sendBeacon(beacon_url_override)\<close>; the argument is a string or is left out.
\<close>

definition sendBeacon :: "string option \<Rightarrow> boomr \<Rightarrow> bool \<times> boomr" where
  "sendBeacon override s =
     (let s1 = (case override of
                  None \<Rightarrow> s
                | Some u \<Rightarrow> (if u \<noteq> [] then s\<lparr>beacon_url_override := Some u\<rparr> else s));
          s2 = (if beaconQueued s1 then s1
                else setImmediate RealSendBeaconTask (s1\<lparr>beaconQueued := True\<rparr>))
      in (True, s2))"

text \<open>\<^verbatim>\<open>impl.fireEvent(e_name, data)\<close> for any name.\<close>

definition fireEvent :: "env \<Rightarrow> string \<Rightarrow> payload \<Rightarrow> boomr \<Rightarrow> (error + unit) \<times> boomr" where
  "fireEvent env e_name data s =
     (let e = event_name env e_name
      in if hasOwnProperty (events s) e
         then (let s1 = fire_public env e data s
               in if e \<noteq> ''before_beacon'' \<and> e \<noteq> ''beacon''
                  then (let flushed = real_sendBeacon env s1
                        in case fst flushed of
                             Inl err \<Rightarrow> (Inl err, snd flushed)
                           | Inr b \<Rightarrow> (Inr (), fire_handlers e data (snd flushed)))
                  else (Inr (), fire_handlers e data s1))
         else (Inr (), s))"

text \<open>Running a scheduled callback, and the browser running the oldest one in its queue.\<close>

definition run_task :: "env \<Rightarrow> task \<Rightarrow> boomr \<Rightarrow> (error + unit) \<times> boomr" where
  "run_task env t s =
     (case t of
        RealSendBeaconTask \<Rightarrow>
          (let flushed = real_sendBeacon env s
           in (case fst flushed of Inl e \<Rightarrow> Inl e | Inr b \<Rightarrow> Inr (), snd flushed))
      | PageLoadBeaconTask varsSent \<Rightarrow> fireEvent env ''page_load_beacon'' (Vars varsSent) s
      | CallbackTask f scope_arg data_arg \<Rightarrow>
          (Inr (),
           emit [Called f (if truthy scope_arg then scope_arg else JNull) (Value JNull)
                   (if truthy data_arg then data_arg else JNew (allocated s))]
             (if truthy data_arg then s else s\<lparr>allocated := Suc (allocated s)\<rparr>)))"

definition run_next :: "env \<Rightarrow> boomr \<Rightarrow> (error + unit) \<times> boomr" where
  "run_next env s =
     (case tasks s of [] \<Rightarrow> (Inr (), s) | t # ts \<Rightarrow> run_task env t (s\<lparr>tasks := ts\<rparr>))"

text \<open>
  The page drives the coordinator by a sequence of calls, each in the environment of its
  moment; an exception ends the call and leaves the state as it is.
\<close>

datatype call =
    SendBeacon "string option"
  | RealSendBeacon
  | FireEvent string payload
  | Subscribe string nat jsval jsval bool
  | AddVar addvar_arg jsval bool
  | RemoveVar "string list"
  | SetVarPriority string jsval
  | RunNext

fun step :: "env \<times> call \<Rightarrow> boomr \<Rightarrow> boomr" where
  "step (env, SendBeacon override) s = snd (sendBeacon override s)"
| "step (env, RealSendBeacon) s = snd (real_sendBeacon env s)"
| "step (env, FireEvent e data) s = snd (fireEvent env e data s)"
| "step (env, Subscribe e f d sc oc) s = subscribe env e f d sc oc s"
| "step (env, AddVar name val single) s = addVar name val single s"
| "step (env, RemoveVar params) s = removeVar params s"
| "step (env, SetVarPriority name pri) s = setVarPriority name pri s"
| "step (env, RunNext) s = snd (run_next env s)"

definition run :: "(env \<times> call) list \<Rightarrow> boomr \<Rightarrow> boomr" where
  "run calls s = fold step calls s"

section \<open>Observations\<close>

text \<open>
  Predicates and projections used to state the properties: the transport effects of a trace
  and their destinations; the guards a flush passes before its bookkeeping (queued flag,
  plugins, DOM, URL clean-up); the page-load classification of the flush; the checks of
  \<^verbatim>\<open>sendBeaconData\<close> before it builds the request; the snapshot \<open>varsSent\<close> that a flush
  of the state passes to \<^verbatim>\<open>sendBeaconData\<close>; the conditions under which that flush is handed
  to the native beacon primitive and accepted by it (no rate limit, the primitive present
  and accepting, a type other than \<^verbatim>\<open>GET\<close>, no authorization token, the primitive not
  disabled, the checks passed), and the URL and the body it is handed with; a call that
  passes no override.
\<close>

fun is_transport :: "effect \<Rightarrow> bool" where
  "is_transport (NavigatorSendBeacon url body) = True"
| "is_transport (ImageSrc url) = True"
| "is_transport (XhrOpen ctx method url) = True"
| "is_transport (XhrHeader ctx k v) = True"
| "is_transport (XhrCredentials ctx) = True"
| "is_transport (XhrSend ctx body) = True"
| "is_transport (Called f sc d cd) = False"
| "is_transport (DomEvent e d) = False"
| "is_transport (Listener e f) = False"
| "is_transport ConsoleWarn = False"

definition transports :: "boomr \<Rightarrow> effect list" where
  "transports s = filter is_transport (trace s)"

fun destination :: "effect \<Rightarrow> string list" where
  "destination (NavigatorSendBeacon url body) = [url]"
| "destination (ImageSrc url) = [url]"
| "destination (XhrOpen ctx method url) = [url]"
| "destination e = []"

definition destinations :: "boomr \<Rightarrow> string list" where
  "destinations s = concat (map destination (trace s))"

definition passes_gates :: "env \<Rightarrow> boomr \<Rightarrow> bool" where
  "passes_gates env s =
     (beaconQueued s \<and> plugins_complete env s \<and> dom_available env \<and>
      fst (url_fields env (strip_query_string s) (impl_r s)
             (is_spa (js_get (vars s) ''http.initiator'')) (vars s)) = Inr ())"

definition is_page_load :: "boomr \<Rightarrow> bool" where
  "is_page_load s =
     (js_get (vars s) ''http.initiator'' = JUndefined \<or> is_spa (js_get (vars s) ''http.initiator''))"

definition passes_checks :: "env \<Rightarrow> jsval jsobj \<Rightarrow> boomr \<Rightarrow> bool" where
  "passes_checks env data s =
     (beacon_target s \<noteq> [] \<and> beaconUrlAllowed env s (beacon_target s) \<and>
      js_get data ''length'' \<noteq> JNum 0)"

definition flush_vars :: "env \<Rightarrow> boomr \<Rightarrow> jsval jsobj" where
  "flush_vars env s =
     fst (snapshot env
            (populate env
               (snd (url_fields env (strip_query_string s) (impl_r s)
                       (is_spa (js_get (vars s) ''http.initiator'')) (vars s)))
               (s\<lparr>beaconQueued := False\<rparr>)))"

definition native_ready :: "env \<Rightarrow> boomr \<Rightarrow> bool" where
  "native_ready env s =
     (\<not> rate_limited env \<and> native_sendBeacon env \<and> native_sendBeacon_queued env \<and>
      beacon_type s \<noteq> ''GET'' \<and> beacon_auth_token s = None \<and> \<not> beacon_disable_sendbeacon s \<and>
      passes_checks env (flush_vars env s) s)"

definition final_target :: "boomr \<Rightarrow> string" where
  "final_target s =
     (if beacon_url_force_https s \<and> starts_with ''//'' (beacon_target s)
      then ''https:'' @ beacon_target s else beacon_target s)"

definition flush_body :: "env \<Rightarrow> boomr \<Rightarrow> string" where
  "flush_body env s = request_body (fst (params_joined env s (flush_vars env s))) @ ''&sb=1''"


fun is_xhr_send :: "effect \<Rightarrow> bool" where
  "is_xhr_send (XhrSend ctx body) = True"
| "is_xhr_send e = False"

definition xhr_sends :: "boomr \<Rightarrow> effect list" where
  "xhr_sends s = filter is_xhr_send (trace s)"

section \<open>Concrete inputs\<close>

text \<open>
  A browser with every transport available and nothing failing, two complete plugins, and a
  document at \<^verbatim>\<open>https://site.example/page#top\<close>; the examples below run in it.
\<close>

definition browser :: env where
  "browser =
     \<lparr> serializeForUrl = (\<lambda>v. ''{}''), exponent_String = (\<lambda>n. ''1e+21''),
       constructor_String = ''function Object() { [native code] }'', regex_exec = (\<lambda>pat url. starts_with pat url),
       plugins = [(''RT'', \<lambda>vs. True), (''Errors'', \<lambda>vs. True)], dom_available = True,
       doc_URL = ''https://site.example/page#top'', version = ''1.0'', session_enabled = False,
       session_ID = ''abc'', session_start = None, session_length = 0, rate_limited = False,
       visibility = ''visible'', last_visible = None, last_hidden = None, now = 1000,
       platform = JStr ''Linux'', vendor = JStr ''V'', pageId = ''p1'', in_frame = False,
       custom_events = True, has_pagehide = True, native_sendBeacon = True,
       native_sendBeacon_queued = True, has_XMLHttpRequest = True, image_throws = False,
       xhr_fails = (\<lambda>c. NoFailure) \<rparr>"

text \<open>
  The store after \<^verbatim>\<open>setVarPriority("a", -1)\<close>, \<^verbatim>\<open>("b", -1)\<close>, \<^verbatim>\<open>("z", 1)\<close> and
  \<^verbatim>\<open>addVar\<close> of \<^verbatim>\<open>a=1\<close>, \<^verbatim>\<open>m=2\<close>, \<^verbatim>\<open>b=3\<close>, \<^verbatim>\<open>z=4\<close>, in this order.
\<close>

definition ordering_example :: boomr where
  "ordering_example =
     addVar (Name ''z'') (JNum 4) False
       (addVar (Name ''b'') (JNum 3) False
         (addVar (Name ''m'') (JNum 2) False
           (addVar (Name ''a'') (JNum 1) False
             (setVarPriority ''z'' (JNum 1)
               (setVarPriority ''b'' (JNum (- 1))
                 (setVarPriority ''a'' (JNum (- 1)) initial))))))"

text \<open>
  A coordinator configured with a beacon URL; the same with a flush requested; a browser in
  which a plugin has set the session's rate limit.
\<close>

definition configured :: boomr where
  "configured = initial\<lparr>beacon_url := ''https://collector.example/b''\<rparr>"

definition queued :: boomr where
  "queued = snd (sendBeacon None configured)"

definition rate_limited_browser :: env where
  "rate_limited_browser = browser\<lparr>rate_limited := True\<rparr>"

text \<open>\<open>N\<close> calls of \<^verbatim>\<open>sendBeacon\<close> in a row, with their arguments.\<close>

definition send_all :: "string option list \<Rightarrow> boomr \<Rightarrow> boomr" where
  "send_all overrides s = fold (\<lambda>u t. snd (sendBeacon u t)) overrides s"

text \<open>
  A flush requested with \<^verbatim>\<open>http.initiator\<close> set to \<^verbatim>\<open>"spa"\<close>, and one with it set to the
  empty string.
\<close>

definition spa_queued :: boomr where
  "spa_queued =
     snd (sendBeacon None (addVar (Name ''http.initiator'') (JStr ''spa'') False configured))"

definition empty_initiator_queued :: boomr where
  "empty_initiator_queued =
     snd (sendBeacon None (addVar (Name ''http.initiator'') (JStr []) False configured))"

text \<open>A flush requested when no beacon URL was configured.\<close>

definition queued_without_url :: boomr where
  "queued_without_url = snd (sendBeacon None initial)"


text \<open>
  A coordinator configured for \<^verbatim>\<open>POST\<close>, and browsers without the native beacon primitive
  in which sending throws: in both windows, and in the page's window only.
\<close>

definition post_configured :: boomr where
  "post_configured = configured\<lparr>beacon_type := ''POST''\<rparr>"

definition failing_xhr_browser :: env where
  "failing_xhr_browser = browser\<lparr>native_sendBeacon := False, xhr_fails := (\<lambda>ctx. ThrowsOnSend)\<rparr>"

definition failing_primary_browser :: env where
  "failing_primary_browser =
     browser\<lparr>native_sendBeacon := False,
             xhr_fails := (\<lambda>ctx. if ctx = PrimaryWindow then ThrowsOnSend else NoFailure)\<rparr>"

definition image_browser :: env where
  "image_browser = browser\<lparr>native_sendBeacon := False\<rparr>"

text \<open>A browser without the native primitive in which creating the image throws.\<close>

definition throwing_image_browser :: env where
  "throwing_image_browser = browser\<lparr>native_sendBeacon := False, image_throws := True\<rparr>"

text \<open>The same handler subscribed twice, with callback data and scope left out.\<close>

definition subscribed_twice :: boomr where
  "subscribed_twice =
     subscribe browser ''xhr_load'' 7 JUndefined JUndefined False
       (subscribe browser ''xhr_load'' 7 JUndefined JUndefined False initial)"

text \<open>Variables added in the order \<^verbatim>\<open>b\<close>, \<^verbatim>\<open>1\<close>; and a name put in both priority buckets.\<close>

definition numeric_name_example :: boomr where
  "numeric_name_example =
     addVar (Name ''1'') (JNum 2) False (addVar (Name ''b'') (JNum 1) False initial)"

definition both_buckets_example :: boomr where
  "both_buckets_example =
     addVar (Name ''a'') (JNum 1) False
       (setVarPriority ''a'' (JNum 1) (setVarPriority ''a'' (JNum (- 1)) initial))"

text \<open>
  A flush requested after \<^verbatim>\<open>addVar({"[object Object]": 1, "b": 2}, undefined, true)\<close>; one
  after \<^verbatim>\<open>addVar({"a": 1, "b": 2}, undefined, true)\<close>; one after \<^verbatim>\<open>addVar("c", 3, true)\<close>;
  and one after \<^verbatim>\<open>addVar("a", 1, true)\<close> followed by \<^verbatim>\<open>addVar({"a": 2}, undefined, true)\<close>.
\<close>

definition bulk_single_example :: boomr where
  "bulk_single_example =
     snd (sendBeacon None
       (addVar (Bulk [(''[object Object]'', JNum 1), (''b'', JNum 2)]) JUndefined True configured))"

definition bulk_plain_example :: boomr where
  "bulk_plain_example =
     snd (sendBeacon None
       (addVar (Bulk [(''a'', JNum 1), (''b'', JNum 2)]) JUndefined True configured))"

definition named_single_example :: boomr where
  "named_single_example =
     snd (sendBeacon None (addVar (Name ''c'') (JNum 3) True configured))"

definition marked_before_example :: boomr where
  "marked_before_example =
     snd (sendBeacon None
       (addVar (Bulk [(''a'', JNum 2)]) JUndefined True
         (addVar (Name ''a'') (JNum 1) True configured)))"

text \<open>
  A browser in which a plugin is not complete; three requests and the scheduled callback
  in it; and a request followed by one with an override, and the scheduled callback.
\<close>

definition waiting_plugin_browser :: env where
  "waiting_plugin_browser = browser\<lparr>plugins := [(''RT'', \<lambda>vs. False)]\<rparr>"

definition three_requests_waiting :: "(env \<times> call) list" where
  "three_requests_waiting =
     [(waiting_plugin_browser, SendBeacon None), (waiting_plugin_browser, SendBeacon None),
      (waiting_plugin_browser, SendBeacon None), (waiting_plugin_browser, RunNext)]"

definition request_then_override :: "(env \<times> call) list" where
  "request_then_override =
     [(browser, SendBeacon None), (browser, SendBeacon (Some ''https://other.example/o'')),
      (browser, RunNext)]"

section \<open>The order of the assembled parameters\<close>

lemma hasOwnProperty_iff: "hasOwnProperty obj k \<longleftrightarrow> k \<in> fst ` set obj"
  using map_of_eq_None_iff[of obj k] by (cases "map_of obj k") (simp_all add: hasOwnProperty_def)

lemma map_of_js_delete: "map_of (js_delete k obj) n = (if n = k then None else map_of obj n)"
  by (induction obj) (auto simp: js_delete_def)

lemma hasOwnProperty_js_delete:
  "hasOwnProperty (js_delete k obj) n \<longleftrightarrow> n \<noteq> k \<and> hasOwnProperty obj n"
  by (simp add: hasOwnProperty_def map_of_js_delete)

lemma js_get_js_delete: "n \<noteq> k \<Longrightarrow> js_get (js_delete k obj) n = js_get obj n"
  by (simp add: js_get_def map_of_js_delete)

lemma pushed_var_js_delete: "n \<noteq> k \<Longrightarrow> pushed_var env (js_delete k vs) n = pushed_var env vs n"
  by (simp add: pushed_var_def js_get_js_delete)

lemma js_delete_filter: "js_delete k (filter P obj) = filter P (js_delete k obj)"
  by (auto simp: js_delete_def intro: filter_cong)

lemma priority_loop_consume:
  "pri \<noteq> 0 \<Longrightarrow> distinct ns \<Longrightarrow>
   priority_loop env pri ns vs =
     (map (pushed_var env vs) (filter (hasOwnProperty vs) ns), filter (\<lambda>p. fst p \<notin> set ns) vs)"
proof (induction ns arbitrary: vs)
  case Nil
  then show ?case by simp
next
  case (Cons n ns)
  from Cons.prems have n: "n \<notin> set ns" and d: "distinct ns" by simp_all
  have eq1: "map (pushed_var env (js_delete n vs)) (filter (hasOwnProperty (js_delete n vs)) ns)
           = map (pushed_var env vs) (filter (hasOwnProperty vs) ns)"
    using n by (induction ns) (auto simp: hasOwnProperty_js_delete pushed_var_js_delete)
  have eq2: "filter (\<lambda>p. fst p \<notin> set ns) (js_delete n vs) = filter (\<lambda>p. fst p \<notin> set (n # ns)) vs"
    by (auto simp: js_delete_def intro: filter_cong)
  have eq3: "\<not> hasOwnProperty vs n \<Longrightarrow> filter (\<lambda>p. fst p \<notin> set ns) vs = filter (\<lambda>p. fst p \<notin> set (n # ns)) vs"
    by (auto simp: hasOwnProperty_iff intro!: filter_cong)
  show ?case
    using Cons.IH[OF Cons.prems(1) d] Cons.prems(1) eq1 eq2 eq3 by (simp add: Let_def)
qed

lemma priority_loop_keep:
  "priority_loop env 0 ns vs = (map (pushed_var env vs) (filter (hasOwnProperty vs) ns), vs)"
  by (induction ns) (simp_all add: Let_def)


lemma hasOwnProperty_filter:
  "hasOwnProperty (filter (\<lambda>p. fst p \<notin> A) vs) n \<longleftrightarrow> n \<notin> A \<and> hasOwnProperty vs n"
  by (auto simp: hasOwnProperty_iff)

lemma map_of_filter_keys:
  "n \<notin> A \<Longrightarrow> map_of (filter (\<lambda>p. fst p \<notin> A) vs) n = map_of vs n"
  by (induction vs) auto

lemma pushed_var_filter:
  "n \<notin> A \<Longrightarrow> pushed_var env (filter (\<lambda>p. fst p \<notin> A) vs) n = pushed_var env vs n"
  by (simp add: pushed_var_def js_get_def map_of_filter_keys)

text \<open>
  C1 (as amended). The string \<open>paramsJoined\<close> that \<^verbatim>\<open>sendBeaconData\<close> assembles is the
  \<^verbatim>\<open>&\<close>-join of three lists of URI-encoded \<^verbatim>\<open>name=value\<close> strings: the names of the
  priority \<open>-1\<close> bucket that are variables of the snapshot; then the snapshot's variables in
  neither bucket; then the names of the priority \<open>1\<close> bucket that are variables of the
  snapshot and not in the first bucket. Each list is in the order in which its object
  enumerates its names (the bucket for the first and the last list, the snapshot for the
  middle one). A name of either bucket is never in the middle list.
\<close>

theorem assembled_order:
  assumes "distinct (map fst (varPriority_first s))" and "distinct (map fst (varPriority_last s))"
  shows "fst (params_joined env s data) =
    join ''&''
      (map (pushed_var env data)
         (filter (hasOwnProperty data) (map fst (varPriority_first s)))
       @ map (pushed_var env data)
         (filter (\<lambda>n. \<not> hasOwnProperty (varPriority_first s) n \<and>
                      \<not> hasOwnProperty (varPriority_last s) n) (map fst data))
       @ map (pushed_var env data)
         (filter (\<lambda>n. hasOwnProperty data n \<and> \<not> hasOwnProperty (varPriority_first s) n)
            (map fst (varPriority_last s))))"
proof -
  let ?F = "map fst (varPriority_first s)" and ?L = "map fst (varPriority_last s)"
  let ?d1 = "filter (\<lambda>p. fst p \<notin> set ?F) data"
  let ?d2 = "filter (\<lambda>p. fst p \<notin> set ?L) ?d1"
  have first: "getVarsOfPriority env s data (- 1) =
      (map (pushed_var env data) (filter (hasOwnProperty data) ?F), ?d1)"
    using assms(1) by (simp add: getVarsOfPriority_def priority_loop_consume)
  have last: "getVarsOfPriority env s ?d1 1 =
      (map (pushed_var env ?d1) (filter (hasOwnProperty ?d1) ?L), ?d2)"
    using assms(2) by (simp add: getVarsOfPriority_def priority_loop_consume)
  have mid: "getVarsOfPriority env s ?d2 0 =
      (map (pushed_var env ?d2) (filter (hasOwnProperty ?d2) (map fst ?d2)), ?d2)"
    by (simp add: getVarsOfPriority_def priority_loop_keep)
  have last': "map (pushed_var env ?d1) (filter (hasOwnProperty ?d1) ?L) =
      map (pushed_var env data)
         (filter (\<lambda>n. hasOwnProperty data n \<and> \<not> hasOwnProperty (varPriority_first s) n) ?L)"
  proof -
    have "filter (hasOwnProperty ?d1) ?L =
          filter (\<lambda>n. hasOwnProperty data n \<and> \<not> hasOwnProperty (varPriority_first s) n) ?L"
    proof (rule filter_cong[OF refl])
      fix n
      have "hasOwnProperty ?d1 n \<longleftrightarrow> n \<notin> set ?F \<and> hasOwnProperty data n"
        by (rule hasOwnProperty_filter)
      then show "hasOwnProperty ?d1 n \<longleftrightarrow>
                 (hasOwnProperty data n \<and> \<not> hasOwnProperty (varPriority_first s) n)"
        by (auto simp: hasOwnProperty_iff)
    qed
    moreover have "map (pushed_var env ?d1)
          (filter (\<lambda>n. hasOwnProperty data n \<and> \<not> hasOwnProperty (varPriority_first s) n) ?L) =
        map (pushed_var env data)
          (filter (\<lambda>n. hasOwnProperty data n \<and> \<not> hasOwnProperty (varPriority_first s) n) ?L)"
    proof (rule map_cong[OF refl])
      fix n
      assume "n \<in> set (filter (\<lambda>n. hasOwnProperty data n \<and>
                 \<not> hasOwnProperty (varPriority_first s) n) ?L)"
      then have "n \<notin> set ?F" by (auto simp: hasOwnProperty_iff)
      then show "pushed_var env ?d1 n = pushed_var env data n"
        by (rule pushed_var_filter)
    qed
    ultimately show ?thesis by simp
  qed
  have keys: "map fst ?d2 =
      filter (\<lambda>n. \<not> hasOwnProperty (varPriority_first s) n \<and>
                   \<not> hasOwnProperty (varPriority_last s) n) (map fst data)"
    by (induction data) (auto simp: hasOwnProperty_iff)
  have mid': "map (pushed_var env ?d2) (filter (hasOwnProperty ?d2) (map fst ?d2)) =
      map (pushed_var env data)
        (filter (\<lambda>n. \<not> hasOwnProperty (varPriority_first s) n \<and>
                     \<not> hasOwnProperty (varPriority_last s) n) (map fst data))"
  proof -
    have a: "filter (hasOwnProperty ?d2) (map fst ?d2) = map fst ?d2"
      by (rule filter_True) (simp add: hasOwnProperty_iff)
    have b: "map (pushed_var env ?d2) (map fst ?d2) = map (pushed_var env data) (map fst ?d2)"
    proof (rule map_cong[OF refl])
      fix n assume "n \<in> set (map fst ?d2)"
      then have "n \<notin> set ?L" and "n \<notin> set ?F" by auto
      then have "pushed_var env ?d2 n = pushed_var env ?d1 n"
        and "pushed_var env ?d1 n = pushed_var env data n"
        using pushed_var_filter[of n "set ?L" env ?d1] pushed_var_filter[of n "set ?F" env data]
        by blast+
      then show "pushed_var env ?d2 n = pushed_var env data n"
        by (rule trans)
    qed
    show ?thesis
      by (simp only: a b) (simp only: keys)
  qed
  show ?thesis
    unfolding params_joined_def Let_def first fst_conv snd_conv last mid last' mid' ..
qed

lemmas store_eval =
  addVar_def setVarPriority_def js_set_def js_get_def js_delete_def hasOwnProperty_def
  is_array_index_def is_digit_def index_val_def digit_val_def initial_def

lemmas encode_eval =
  pushed_var_def getUriEncodedVar_def encodeURIComponent_def uri_unreserved_def
  percent_encode_def hex_digit_def number_toString_def js_String_def

theorem assembled_order_example:
  "distinct (map fst (varPriority_first ordering_example)) \<and>
   distinct (map fst (varPriority_last ordering_example)) \<and>
   map fst (varPriority_first ordering_example) = [''a'', ''b''] \<and>
   map fst (varPriority_last ordering_example) = [''z''] \<and>
   vars ordering_example = [(''a'', JNum 1), (''m'', JNum 2), (''b'', JNum 3), (''z'', JNum 4)] \<and>
   fst (params_joined browser ordering_example (vars ordering_example)) = ''a=1&b=3&m=2&z=4''"
proof -
  have f: "varPriority_first ordering_example = [(''a'', JNum 1), (''b'', JNum 1)]"
    by (simp add: ordering_example_def store_eval)
  have l: "varPriority_last ordering_example = [(''z'', JNum 1)]"
    by (simp add: ordering_example_def store_eval)
  have v: "vars ordering_example = [(''a'', JNum 1), (''m'', JNum 2), (''b'', JNum 3), (''z'', JNum 4)]"
    by (simp add: ordering_example_def store_eval)
  have d1: "distinct (map fst (varPriority_first ordering_example))"
    by (simp add: f)
  have d2: "distinct (map fst (varPriority_last ordering_example))"
    by (simp add: l)
  have "fst (params_joined browser ordering_example (vars ordering_example)) = ''a=1&b=3&m=2&z=4''"
    unfolding assembled_order[OF d1 d2] f l v
    by (simp add: hasOwnProperty_def js_get_def encode_eval)
  with f l v show ?thesis by simp
qed

text \<open>
  C1, the claim as stated fails: variables added in the order \<^verbatim>\<open>b\<close>, \<^verbatim>\<open>1\<close> are assembled
  in the order \<^verbatim>\<open>1\<close>, \<^verbatim>\<open>b\<close>; and a variable whose name is in both buckets is assembled
  once, in the first list.
\<close>

theorem index_name_comes_first:
  "vars (addVar (Name ''b'') (JNum 1) False initial) = [(''b'', JNum 1)] \<and>
   vars numeric_name_example = [(''1'', JNum 2), (''b'', JNum 1)] \<and>
   fst (params_joined browser numeric_name_example (vars numeric_name_example)) = ''1=2&b=1'' \<and>
   map fst (varPriority_first both_buckets_example) = [''a''] \<and>
   map fst (varPriority_last both_buckets_example) = [''a''] \<and>
   fst (params_joined browser both_buckets_example (vars both_buckets_example)) = ''a=1''"
  by code_simp

section \<open>What each operation leaves unchanged\<close>

lemma emit_keeps [simp]:
  "beacon_url (emit es s) = beacon_url s"
  "beacon_url_override (emit es s) = beacon_url_override s"
  "beacon_url_force_https (emit es s) = beacon_url_force_https s"
  "beacon_urls_allowed (emit es s) = beacon_urls_allowed s"
  "beacon_type (emit es s) = beacon_type s"
  "beacon_auth_key (emit es s) = beacon_auth_key s"
  "beacon_auth_token (emit es s) = beacon_auth_token s"
  "beacon_with_credentials (emit es s) = beacon_with_credentials s"
  "beacon_disable_sendbeacon (emit es s) = beacon_disable_sendbeacon s"
  "strip_query_string (emit es s) = strip_query_string s"
  "autorun (emit es s) = autorun s"
  "onloadfired (emit es s) = onloadfired s"
  "hasSentPageLoadBeacon (emit es s) = hasSentPageLoadBeacon s"
  "impl_r (emit es s) = impl_r s"
  "events (emit es s) = events s"
  "vars (emit es s) = vars s"
  "singleBeaconVars (emit es s) = singleBeaconVars s"
  "varPriority_first (emit es s) = varPriority_first s"
  "varPriority_last (emit es s) = varPriority_last s"
  "errors (emit es s) = errors s"
  "disabled_plugins (emit es s) = disabled_plugins s"
  "beaconQueued (emit es s) = beaconQueued s"
  "beaconsSent (emit es s) = beaconsSent s"
  "allocated (emit es s) = allocated s"
  "tasks (emit es s) = tasks s"
  by (simp_all add: emit_def)

lemma setImmediate_keeps [simp]:
  "beacon_url (setImmediate t s) = beacon_url s"
  "beacon_url_override (setImmediate t s) = beacon_url_override s"
  "beacon_url_force_https (setImmediate t s) = beacon_url_force_https s"
  "beacon_urls_allowed (setImmediate t s) = beacon_urls_allowed s"
  "beacon_type (setImmediate t s) = beacon_type s"
  "beacon_auth_key (setImmediate t s) = beacon_auth_key s"
  "beacon_auth_token (setImmediate t s) = beacon_auth_token s"
  "beacon_with_credentials (setImmediate t s) = beacon_with_credentials s"
  "beacon_disable_sendbeacon (setImmediate t s) = beacon_disable_sendbeacon s"
  "strip_query_string (setImmediate t s) = strip_query_string s"
  "autorun (setImmediate t s) = autorun s"
  "onloadfired (setImmediate t s) = onloadfired s"
  "hasSentPageLoadBeacon (setImmediate t s) = hasSentPageLoadBeacon s"
  "impl_r (setImmediate t s) = impl_r s"
  "events (setImmediate t s) = events s"
  "vars (setImmediate t s) = vars s"
  "singleBeaconVars (setImmediate t s) = singleBeaconVars s"
  "varPriority_first (setImmediate t s) = varPriority_first s"
  "varPriority_last (setImmediate t s) = varPriority_last s"
  "errors (setImmediate t s) = errors s"
  "disabled_plugins (setImmediate t s) = disabled_plugins s"
  "beaconQueued (setImmediate t s) = beaconQueued s"
  "beaconsSent (setImmediate t s) = beaconsSent s"
  "allocated (setImmediate t s) = allocated s"
  "trace (setImmediate t s) = trace s"
  by (simp_all add: setImmediate_def)

lemma fire_public_keeps [simp]:
  "beacon_url (fire_public env e d s) = beacon_url s"
  "beacon_url_override (fire_public env e d s) = beacon_url_override s"
  "beacon_url_force_https (fire_public env e d s) = beacon_url_force_https s"
  "beacon_urls_allowed (fire_public env e d s) = beacon_urls_allowed s"
  "beacon_type (fire_public env e d s) = beacon_type s"
  "beacon_auth_key (fire_public env e d s) = beacon_auth_key s"
  "beacon_auth_token (fire_public env e d s) = beacon_auth_token s"
  "beacon_with_credentials (fire_public env e d s) = beacon_with_credentials s"
  "beacon_disable_sendbeacon (fire_public env e d s) = beacon_disable_sendbeacon s"
  "strip_query_string (fire_public env e d s) = strip_query_string s"
  "autorun (fire_public env e d s) = autorun s"
  "onloadfired (fire_public env e d s) = onloadfired s"
  "hasSentPageLoadBeacon (fire_public env e d s) = hasSentPageLoadBeacon s"
  "impl_r (fire_public env e d s) = impl_r s"
  "events (fire_public env e d s) = events s"
  "vars (fire_public env e d s) = vars s"
  "singleBeaconVars (fire_public env e d s) = singleBeaconVars s"
  "varPriority_first (fire_public env e d s) = varPriority_first s"
  "varPriority_last (fire_public env e d s) = varPriority_last s"
  "errors (fire_public env e d s) = errors s"
  "disabled_plugins (fire_public env e d s) = disabled_plugins s"
  "beaconQueued (fire_public env e d s) = beaconQueued s"
  "beaconsSent (fire_public env e d s) = beaconsSent s"
  "allocated (fire_public env e d s) = allocated s"
  "tasks (fire_public env e d s) = tasks s"
  by (simp_all add: fire_public_def split: option.splits)

lemma fire_handlers_keeps [simp]:
  "beacon_url (fire_handlers e d s) = beacon_url s"
  "beacon_url_override (fire_handlers e d s) = beacon_url_override s"
  "beacon_url_force_https (fire_handlers e d s) = beacon_url_force_https s"
  "beacon_urls_allowed (fire_handlers e d s) = beacon_urls_allowed s"
  "beacon_type (fire_handlers e d s) = beacon_type s"
  "beacon_auth_key (fire_handlers e d s) = beacon_auth_key s"
  "beacon_auth_token (fire_handlers e d s) = beacon_auth_token s"
  "beacon_with_credentials (fire_handlers e d s) = beacon_with_credentials s"
  "beacon_disable_sendbeacon (fire_handlers e d s) = beacon_disable_sendbeacon s"
  "strip_query_string (fire_handlers e d s) = strip_query_string s"
  "autorun (fire_handlers e d s) = autorun s"
  "onloadfired (fire_handlers e d s) = onloadfired s"
  "hasSentPageLoadBeacon (fire_handlers e d s) = hasSentPageLoadBeacon s"
  "impl_r (fire_handlers e d s) = impl_r s"
  "vars (fire_handlers e d s) = vars s"
  "singleBeaconVars (fire_handlers e d s) = singleBeaconVars s"
  "varPriority_first (fire_handlers e d s) = varPriority_first s"
  "varPriority_last (fire_handlers e d s) = varPriority_last s"
  "errors (fire_handlers e d s) = errors s"
  "disabled_plugins (fire_handlers e d s) = disabled_plugins s"
  "beaconQueued (fire_handlers e d s) = beaconQueued s"
  "beaconsSent (fire_handlers e d s) = beaconsSent s"
  "allocated (fire_handlers e d s) = allocated s"
  "tasks (fire_handlers e d s) = tasks s"
  by (simp_all add: fire_handlers_def Let_def)

lemma fireEvent_noflush_keeps [simp]:
  "beacon_url (fireEvent_noflush env e d s) = beacon_url s"
  "beacon_url_override (fireEvent_noflush env e d s) = beacon_url_override s"
  "beacon_url_force_https (fireEvent_noflush env e d s) = beacon_url_force_https s"
  "beacon_urls_allowed (fireEvent_noflush env e d s) = beacon_urls_allowed s"
  "beacon_type (fireEvent_noflush env e d s) = beacon_type s"
  "beacon_auth_key (fireEvent_noflush env e d s) = beacon_auth_key s"
  "beacon_auth_token (fireEvent_noflush env e d s) = beacon_auth_token s"
  "beacon_with_credentials (fireEvent_noflush env e d s) = beacon_with_credentials s"
  "beacon_disable_sendbeacon (fireEvent_noflush env e d s) = beacon_disable_sendbeacon s"
  "strip_query_string (fireEvent_noflush env e d s) = strip_query_string s"
  "autorun (fireEvent_noflush env e d s) = autorun s"
  "onloadfired (fireEvent_noflush env e d s) = onloadfired s"
  "hasSentPageLoadBeacon (fireEvent_noflush env e d s) = hasSentPageLoadBeacon s"
  "impl_r (fireEvent_noflush env e d s) = impl_r s"
  "vars (fireEvent_noflush env e d s) = vars s"
  "singleBeaconVars (fireEvent_noflush env e d s) = singleBeaconVars s"
  "varPriority_first (fireEvent_noflush env e d s) = varPriority_first s"
  "varPriority_last (fireEvent_noflush env e d s) = varPriority_last s"
  "errors (fireEvent_noflush env e d s) = errors s"
  "disabled_plugins (fireEvent_noflush env e d s) = disabled_plugins s"
  "beaconQueued (fireEvent_noflush env e d s) = beaconQueued s"
  "beaconsSent (fireEvent_noflush env e d s) = beaconsSent s"
  "allocated (fireEvent_noflush env e d s) = allocated s"
  "tasks (fireEvent_noflush env e d s) = tasks s"
  by (simp_all add: fireEvent_noflush_def Let_def)

lemma removeVar_eq:
  "removeVar ps s =
     s\<lparr>vars := fold (\<lambda>k vs. if hasOwnProperty vs k then js_delete k vs else vs) ps (vars s)\<rparr>"
  unfolding removeVar_def by (induction ps arbitrary: s) simp_all

lemma removeVar_keeps [simp]:
  "beacon_url (removeVar ps s) = beacon_url s"
  "beacon_url_override (removeVar ps s) = beacon_url_override s"
  "beacon_url_force_https (removeVar ps s) = beacon_url_force_https s"
  "beacon_urls_allowed (removeVar ps s) = beacon_urls_allowed s"
  "beacon_type (removeVar ps s) = beacon_type s"
  "beacon_auth_key (removeVar ps s) = beacon_auth_key s"
  "beacon_auth_token (removeVar ps s) = beacon_auth_token s"
  "beacon_with_credentials (removeVar ps s) = beacon_with_credentials s"
  "beacon_disable_sendbeacon (removeVar ps s) = beacon_disable_sendbeacon s"
  "strip_query_string (removeVar ps s) = strip_query_string s"
  "autorun (removeVar ps s) = autorun s"
  "onloadfired (removeVar ps s) = onloadfired s"
  "hasSentPageLoadBeacon (removeVar ps s) = hasSentPageLoadBeacon s"
  "impl_r (removeVar ps s) = impl_r s"
  "events (removeVar ps s) = events s"
  "singleBeaconVars (removeVar ps s) = singleBeaconVars s"
  "varPriority_first (removeVar ps s) = varPriority_first s"
  "varPriority_last (removeVar ps s) = varPriority_last s"
  "errors (removeVar ps s) = errors s"
  "disabled_plugins (removeVar ps s) = disabled_plugins s"
  "beaconQueued (removeVar ps s) = beaconQueued s"
  "beaconsSent (removeVar ps s) = beaconsSent s"
  "allocated (removeVar ps s) = allocated s"
  "tasks (removeVar ps s) = tasks s"
  "trace (removeVar ps s) = trace s"
  by (simp_all add: removeVar_eq)

lemma addVar_keeps [simp]:
  "beacon_url (addVar name val single s) = beacon_url s"
  "beacon_url_override (addVar name val single s) = beacon_url_override s"
  "beacon_url_force_https (addVar name val single s) = beacon_url_force_https s"
  "beacon_urls_allowed (addVar name val single s) = beacon_urls_allowed s"
  "beacon_type (addVar name val single s) = beacon_type s"
  "beacon_auth_key (addVar name val single s) = beacon_auth_key s"
  "beacon_auth_token (addVar name val single s) = beacon_auth_token s"
  "beacon_with_credentials (addVar name val single s) = beacon_with_credentials s"
  "beacon_disable_sendbeacon (addVar name val single s) = beacon_disable_sendbeacon s"
  "strip_query_string (addVar name val single s) = strip_query_string s"
  "autorun (addVar name val single s) = autorun s"
  "onloadfired (addVar name val single s) = onloadfired s"
  "hasSentPageLoadBeacon (addVar name val single s) = hasSentPageLoadBeacon s"
  "impl_r (addVar name val single s) = impl_r s"
  "events (addVar name val single s) = events s"
  "varPriority_first (addVar name val single s) = varPriority_first s"
  "varPriority_last (addVar name val single s) = varPriority_last s"
  "errors (addVar name val single s) = errors s"
  "disabled_plugins (addVar name val single s) = disabled_plugins s"
  "beaconQueued (addVar name val single s) = beaconQueued s"
  "beaconsSent (addVar name val single s) = beaconsSent s"
  "allocated (addVar name val single s) = allocated s"
  "tasks (addVar name val single s) = tasks s"
  "trace (addVar name val single s) = trace s"
  by (simp_all add: addVar_def Let_def split: addvar_arg.splits)

lemma setVarPriority_keeps [simp]:
  "beacon_url (setVarPriority name pri s) = beacon_url s"
  "beacon_url_override (setVarPriority name pri s) = beacon_url_override s"
  "beacon_url_force_https (setVarPriority name pri s) = beacon_url_force_https s"
  "beacon_urls_allowed (setVarPriority name pri s) = beacon_urls_allowed s"
  "beacon_type (setVarPriority name pri s) = beacon_type s"
  "beacon_auth_key (setVarPriority name pri s) = beacon_auth_key s"
  "beacon_auth_token (setVarPriority name pri s) = beacon_auth_token s"
  "beacon_with_credentials (setVarPriority name pri s) = beacon_with_credentials s"
  "beacon_disable_sendbeacon (setVarPriority name pri s) = beacon_disable_sendbeacon s"
  "strip_query_string (setVarPriority name pri s) = strip_query_string s"
  "autorun (setVarPriority name pri s) = autorun s"
  "onloadfired (setVarPriority name pri s) = onloadfired s"
  "hasSentPageLoadBeacon (setVarPriority name pri s) = hasSentPageLoadBeacon s"
  "impl_r (setVarPriority name pri s) = impl_r s"
  "events (setVarPriority name pri s) = events s"
  "vars (setVarPriority name pri s) = vars s"
  "singleBeaconVars (setVarPriority name pri s) = singleBeaconVars s"
  "errors (setVarPriority name pri s) = errors s"
  "disabled_plugins (setVarPriority name pri s) = disabled_plugins s"
  "beaconQueued (setVarPriority name pri s) = beaconQueued s"
  "beaconsSent (setVarPriority name pri s) = beaconsSent s"
  "allocated (setVarPriority name pri s) = allocated s"
  "tasks (setVarPriority name pri s) = tasks s"
  "trace (setVarPriority name pri s) = trace s"
  by (simp_all add: setVarPriority_def split: jsval.splits)

lemma subscribe_keeps [simp]:
  "beacon_url (subscribe env e f d sc oc s) = beacon_url s"
  "beacon_url_override (subscribe env e f d sc oc s) = beacon_url_override s"
  "beacon_url_force_https (subscribe env e f d sc oc s) = beacon_url_force_https s"
  "beacon_urls_allowed (subscribe env e f d sc oc s) = beacon_urls_allowed s"
  "beacon_type (subscribe env e f d sc oc s) = beacon_type s"
  "beacon_auth_key (subscribe env e f d sc oc s) = beacon_auth_key s"
  "beacon_auth_token (subscribe env e f d sc oc s) = beacon_auth_token s"
  "beacon_with_credentials (subscribe env e f d sc oc s) = beacon_with_credentials s"
  "beacon_disable_sendbeacon (subscribe env e f d sc oc s) = beacon_disable_sendbeacon s"
  "strip_query_string (subscribe env e f d sc oc s) = strip_query_string s"
  "autorun (subscribe env e f d sc oc s) = autorun s"
  "onloadfired (subscribe env e f d sc oc s) = onloadfired s"
  "hasSentPageLoadBeacon (subscribe env e f d sc oc s) = hasSentPageLoadBeacon s"
  "impl_r (subscribe env e f d sc oc s) = impl_r s"
  "vars (subscribe env e f d sc oc s) = vars s"
  "singleBeaconVars (subscribe env e f d sc oc s) = singleBeaconVars s"
  "varPriority_first (subscribe env e f d sc oc s) = varPriority_first s"
  "varPriority_last (subscribe env e f d sc oc s) = varPriority_last s"
  "errors (subscribe env e f d sc oc s) = errors s"
  "disabled_plugins (subscribe env e f d sc oc s) = disabled_plugins s"
  "beaconQueued (subscribe env e f d sc oc s) = beaconQueued s"
  "beaconsSent (subscribe env e f d sc oc s) = beaconsSent s"
  by (simp_all add: subscribe_def Let_def)

lemma sendBeacon_keeps [simp]:
  "beacon_url (snd (sendBeacon u s)) = beacon_url s"
  "beacon_url_force_https (snd (sendBeacon u s)) = beacon_url_force_https s"
  "beacon_urls_allowed (snd (sendBeacon u s)) = beacon_urls_allowed s"
  "beacon_type (snd (sendBeacon u s)) = beacon_type s"
  "beacon_auth_key (snd (sendBeacon u s)) = beacon_auth_key s"
  "beacon_auth_token (snd (sendBeacon u s)) = beacon_auth_token s"
  "beacon_with_credentials (snd (sendBeacon u s)) = beacon_with_credentials s"
  "beacon_disable_sendbeacon (snd (sendBeacon u s)) = beacon_disable_sendbeacon s"
  "strip_query_string (snd (sendBeacon u s)) = strip_query_string s"
  "autorun (snd (sendBeacon u s)) = autorun s"
  "onloadfired (snd (sendBeacon u s)) = onloadfired s"
  "hasSentPageLoadBeacon (snd (sendBeacon u s)) = hasSentPageLoadBeacon s"
  "impl_r (snd (sendBeacon u s)) = impl_r s"
  "events (snd (sendBeacon u s)) = events s"
  "vars (snd (sendBeacon u s)) = vars s"
  "singleBeaconVars (snd (sendBeacon u s)) = singleBeaconVars s"
  "varPriority_first (snd (sendBeacon u s)) = varPriority_first s"
  "varPriority_last (snd (sendBeacon u s)) = varPriority_last s"
  "errors (snd (sendBeacon u s)) = errors s"
  "disabled_plugins (snd (sendBeacon u s)) = disabled_plugins s"
  "beaconsSent (snd (sendBeacon u s)) = beaconsSent s"
  "allocated (snd (sendBeacon u s)) = allocated s"
  "trace (snd (sendBeacon u s)) = trace s"
  by (simp_all add: sendBeacon_def Let_def split: option.splits)

lemma sendXhrPostBeacon_keeps [simp]:
  "beacon_url (snd (sendXhrPostBeacon env ctx p s)) = beacon_url s"
  "beacon_url_override (snd (sendXhrPostBeacon env ctx p s)) = beacon_url_override s"
  "beacon_url_force_https (snd (sendXhrPostBeacon env ctx p s)) = beacon_url_force_https s"
  "beacon_urls_allowed (snd (sendXhrPostBeacon env ctx p s)) = beacon_urls_allowed s"
  "beacon_type (snd (sendXhrPostBeacon env ctx p s)) = beacon_type s"
  "beacon_auth_token (snd (sendXhrPostBeacon env ctx p s)) = beacon_auth_token s"
  "beacon_with_credentials (snd (sendXhrPostBeacon env ctx p s)) = beacon_with_credentials s"
  "beacon_disable_sendbeacon (snd (sendXhrPostBeacon env ctx p s)) = beacon_disable_sendbeacon s"
  "strip_query_string (snd (sendXhrPostBeacon env ctx p s)) = strip_query_string s"
  "autorun (snd (sendXhrPostBeacon env ctx p s)) = autorun s"
  "onloadfired (snd (sendXhrPostBeacon env ctx p s)) = onloadfired s"
  "hasSentPageLoadBeacon (snd (sendXhrPostBeacon env ctx p s)) = hasSentPageLoadBeacon s"
  "impl_r (snd (sendXhrPostBeacon env ctx p s)) = impl_r s"
  "events (snd (sendXhrPostBeacon env ctx p s)) = events s"
  "vars (snd (sendXhrPostBeacon env ctx p s)) = vars s"
  "singleBeaconVars (snd (sendXhrPostBeacon env ctx p s)) = singleBeaconVars s"
  "varPriority_first (snd (sendXhrPostBeacon env ctx p s)) = varPriority_first s"
  "varPriority_last (snd (sendXhrPostBeacon env ctx p s)) = varPriority_last s"
  "errors (snd (sendXhrPostBeacon env ctx p s)) = errors s"
  "disabled_plugins (snd (sendXhrPostBeacon env ctx p s)) = disabled_plugins s"
  "beaconQueued (snd (sendXhrPostBeacon env ctx p s)) = beaconQueued s"
  "beaconsSent (snd (sendXhrPostBeacon env ctx p s)) = beaconsSent s"
  "allocated (snd (sendXhrPostBeacon env ctx p s)) = allocated s"
  "tasks (snd (sendXhrPostBeacon env ctx p s)) = tasks s"
  by (simp_all add: sendXhrPostBeacon_def Let_def split: option.splits)

lemma xhr_beacon_keeps [simp]:
  "beacon_url (snd (xhr_beacon env p s)) = beacon_url s"
  "beacon_url_override (snd (xhr_beacon env p s)) = beacon_url_override s"
  "beacon_url_force_https (snd (xhr_beacon env p s)) = beacon_url_force_https s"
  "beacon_urls_allowed (snd (xhr_beacon env p s)) = beacon_urls_allowed s"
  "beacon_type (snd (xhr_beacon env p s)) = beacon_type s"
  "beacon_auth_token (snd (xhr_beacon env p s)) = beacon_auth_token s"
  "beacon_with_credentials (snd (xhr_beacon env p s)) = beacon_with_credentials s"
  "beacon_disable_sendbeacon (snd (xhr_beacon env p s)) = beacon_disable_sendbeacon s"
  "strip_query_string (snd (xhr_beacon env p s)) = strip_query_string s"
  "autorun (snd (xhr_beacon env p s)) = autorun s"
  "onloadfired (snd (xhr_beacon env p s)) = onloadfired s"
  "hasSentPageLoadBeacon (snd (xhr_beacon env p s)) = hasSentPageLoadBeacon s"
  "impl_r (snd (xhr_beacon env p s)) = impl_r s"
  "events (snd (xhr_beacon env p s)) = events s"
  "vars (snd (xhr_beacon env p s)) = vars s"
  "singleBeaconVars (snd (xhr_beacon env p s)) = singleBeaconVars s"
  "varPriority_first (snd (xhr_beacon env p s)) = varPriority_first s"
  "varPriority_last (snd (xhr_beacon env p s)) = varPriority_last s"
  "errors (snd (xhr_beacon env p s)) = errors s"
  "disabled_plugins (snd (xhr_beacon env p s)) = disabled_plugins s"
  "beaconQueued (snd (xhr_beacon env p s)) = beaconQueued s"
  "beaconsSent (snd (xhr_beacon env p s)) = beaconsSent s"
  "allocated (snd (xhr_beacon env p s)) = allocated s"
  "tasks (snd (xhr_beacon env p s)) = tasks s"
  by (simp_all add: xhr_beacon_def Let_def split: sum.splits)

lemma transmit_keeps [simp]:
  "beacon_url (snd (transmit env url p s)) = beacon_url s"
  "beacon_url_override (snd (transmit env url p s)) = beacon_url_override s"
  "beacon_url_force_https (snd (transmit env url p s)) = beacon_url_force_https s"
  "beacon_urls_allowed (snd (transmit env url p s)) = beacon_urls_allowed s"
  "beacon_type (snd (transmit env url p s)) = beacon_type s"
  "beacon_auth_token (snd (transmit env url p s)) = beacon_auth_token s"
  "beacon_with_credentials (snd (transmit env url p s)) = beacon_with_credentials s"
  "beacon_disable_sendbeacon (snd (transmit env url p s)) = beacon_disable_sendbeacon s"
  "strip_query_string (snd (transmit env url p s)) = strip_query_string s"
  "autorun (snd (transmit env url p s)) = autorun s"
  "onloadfired (snd (transmit env url p s)) = onloadfired s"
  "hasSentPageLoadBeacon (snd (transmit env url p s)) = hasSentPageLoadBeacon s"
  "impl_r (snd (transmit env url p s)) = impl_r s"
  "events (snd (transmit env url p s)) = events s"
  "vars (snd (transmit env url p s)) = vars s"
  "singleBeaconVars (snd (transmit env url p s)) = singleBeaconVars s"
  "varPriority_first (snd (transmit env url p s)) = varPriority_first s"
  "varPriority_last (snd (transmit env url p s)) = varPriority_last s"
  "errors (snd (transmit env url p s)) = errors s"
  "disabled_plugins (snd (transmit env url p s)) = disabled_plugins s"
  "beaconQueued (snd (transmit env url p s)) = beaconQueued s"
  "beaconsSent (snd (transmit env url p s)) = beaconsSent s"
  "allocated (snd (transmit env url p s)) = allocated s"
  "tasks (snd (transmit env url p s)) = tasks s"
  by (simp_all add: transmit_def Let_def)

lemma sendBeaconData_keeps [simp]:
  "beacon_url_override (snd (snd (sendBeaconData env data s))) = beacon_url_override s"
  "beacon_url_force_https (snd (snd (sendBeaconData env data s))) = beacon_url_force_https s"
  "beacon_urls_allowed (snd (snd (sendBeaconData env data s))) = beacon_urls_allowed s"
  "beacon_type (snd (snd (sendBeaconData env data s))) = beacon_type s"
  "beacon_auth_token (snd (snd (sendBeaconData env data s))) = beacon_auth_token s"
  "beacon_with_credentials (snd (snd (sendBeaconData env data s))) = beacon_with_credentials s"
  "beacon_disable_sendbeacon (snd (snd (sendBeaconData env data s))) = beacon_disable_sendbeacon s"
  "strip_query_string (snd (snd (sendBeaconData env data s))) = strip_query_string s"
  "autorun (snd (snd (sendBeaconData env data s))) = autorun s"
  "onloadfired (snd (snd (sendBeaconData env data s))) = onloadfired s"
  "hasSentPageLoadBeacon (snd (snd (sendBeaconData env data s))) = hasSentPageLoadBeacon s"
  "impl_r (snd (snd (sendBeaconData env data s))) = impl_r s"
  "vars (snd (snd (sendBeaconData env data s))) = vars s"
  "singleBeaconVars (snd (snd (sendBeaconData env data s))) = singleBeaconVars s"
  "varPriority_first (snd (snd (sendBeaconData env data s))) = varPriority_first s"
  "varPriority_last (snd (snd (sendBeaconData env data s))) = varPriority_last s"
  "errors (snd (snd (sendBeaconData env data s))) = errors s"
  "disabled_plugins (snd (snd (sendBeaconData env data s))) = disabled_plugins s"
  "beaconQueued (snd (snd (sendBeaconData env data s))) = beaconQueued s"
  "beaconsSent (snd (snd (sendBeaconData env data s))) = beaconsSent s"
  "allocated (snd (snd (sendBeaconData env data s))) = allocated s"
  "tasks (snd (snd (sendBeaconData env data s))) = tasks s"
  by (simp_all add: sendBeaconData_def Let_def)

lemma populate_keeps [simp]:
  "beacon_url (populate env vs s) = beacon_url s"
  "beacon_url_override (populate env vs s) = beacon_url_override s"
  "beacon_url_force_https (populate env vs s) = beacon_url_force_https s"
  "beacon_urls_allowed (populate env vs s) = beacon_urls_allowed s"
  "beacon_type (populate env vs s) = beacon_type s"
  "beacon_auth_key (populate env vs s) = beacon_auth_key s"
  "beacon_auth_token (populate env vs s) = beacon_auth_token s"
  "beacon_with_credentials (populate env vs s) = beacon_with_credentials s"
  "beacon_disable_sendbeacon (populate env vs s) = beacon_disable_sendbeacon s"
  "strip_query_string (populate env vs s) = strip_query_string s"
  "autorun (populate env vs s) = autorun s"
  "onloadfired (populate env vs s) = onloadfired s"
  "hasSentPageLoadBeacon (populate env vs s) = hasSentPageLoadBeacon s"
  "impl_r (populate env vs s) = impl_r s"
  "events (populate env vs s) = events s"
  "singleBeaconVars (populate env vs s) = singleBeaconVars s"
  "varPriority_first (populate env vs s) = varPriority_first s"
  "varPriority_last (populate env vs s) = varPriority_last s"
  "disabled_plugins (populate env vs s) = disabled_plugins s"
  "beaconQueued (populate env vs s) = beaconQueued s"
  "allocated (populate env vs s) = allocated s"
  "tasks (populate env vs s) = tasks s"
  "trace (populate env vs s) = trace s"
  by (simp_all add: populate_def Let_def)

lemma snapshot_keeps [simp]:
  "beacon_url (snd (snapshot env s)) = beacon_url s"
  "beacon_url_override (snd (snapshot env s)) = beacon_url_override s"
  "beacon_url_force_https (snd (snapshot env s)) = beacon_url_force_https s"
  "beacon_urls_allowed (snd (snapshot env s)) = beacon_urls_allowed s"
  "beacon_type (snd (snapshot env s)) = beacon_type s"
  "beacon_auth_key (snd (snapshot env s)) = beacon_auth_key s"
  "beacon_auth_token (snd (snapshot env s)) = beacon_auth_token s"
  "beacon_with_credentials (snd (snapshot env s)) = beacon_with_credentials s"
  "beacon_disable_sendbeacon (snd (snapshot env s)) = beacon_disable_sendbeacon s"
  "strip_query_string (snd (snapshot env s)) = strip_query_string s"
  "autorun (snd (snapshot env s)) = autorun s"
  "onloadfired (snd (snapshot env s)) = onloadfired s"
  "hasSentPageLoadBeacon (snd (snapshot env s)) = hasSentPageLoadBeacon s"
  "impl_r (snd (snapshot env s)) = impl_r s"
  "varPriority_first (snd (snapshot env s)) = varPriority_first s"
  "varPriority_last (snd (snapshot env s)) = varPriority_last s"
  "errors (snd (snapshot env s)) = errors s"
  "disabled_plugins (snd (snapshot env s)) = disabled_plugins s"
  "beaconQueued (snd (snapshot env s)) = beaconQueued s"
  "beaconsSent (snd (snapshot env s)) = beaconsSent s"
  "allocated (snd (snapshot env s)) = allocated s"
  "tasks (snd (snapshot env s)) = tasks s"
  by (simp_all add: snapshot_def Let_def)

lemma hand_over_keeps [simp]:
  "beacon_url_override (snd (hand_over env pl vs s)) = beacon_url_override s"
  "beacon_url_force_https (snd (hand_over env pl vs s)) = beacon_url_force_https s"
  "beacon_urls_allowed (snd (hand_over env pl vs s)) = beacon_urls_allowed s"
  "beacon_type (snd (hand_over env pl vs s)) = beacon_type s"
  "beacon_auth_token (snd (hand_over env pl vs s)) = beacon_auth_token s"
  "beacon_with_credentials (snd (hand_over env pl vs s)) = beacon_with_credentials s"
  "beacon_disable_sendbeacon (snd (hand_over env pl vs s)) = beacon_disable_sendbeacon s"
  "strip_query_string (snd (hand_over env pl vs s)) = strip_query_string s"
  "autorun (snd (hand_over env pl vs s)) = autorun s"
  "onloadfired (snd (hand_over env pl vs s)) = onloadfired s"
  "impl_r (snd (hand_over env pl vs s)) = impl_r s"
  "vars (snd (hand_over env pl vs s)) = vars s"
  "singleBeaconVars (snd (hand_over env pl vs s)) = singleBeaconVars s"
  "varPriority_first (snd (hand_over env pl vs s)) = varPriority_first s"
  "varPriority_last (snd (hand_over env pl vs s)) = varPriority_last s"
  "errors (snd (hand_over env pl vs s)) = errors s"
  "disabled_plugins (snd (hand_over env pl vs s)) = disabled_plugins s"
  "beaconQueued (snd (hand_over env pl vs s)) = beaconQueued s"
  "beaconsSent (snd (hand_over env pl vs s)) = beaconsSent s"
  "allocated (snd (hand_over env pl vs s)) = allocated s"
  by (simp_all add: hand_over_def Let_def)

section \<open>The flush: flag, counter, latch and queue\<close>

lemma plugins_complete_queued [simp]:
  "plugins_complete env (s\<lparr>beaconQueued := b\<rparr>) = plugins_complete env s"
  by (simp add: plugins_complete_def)

lemma hand_over_latch:
  "hasSentPageLoadBeacon (snd (hand_over env pl vs s)) = (hasSentPageLoadBeacon s \<or> pl)"
  by (simp add: hand_over_def Let_def)

lemma hand_over_tasks:
  "\<exists>d. tasks (snd (hand_over env pl vs s)) =
         tasks s @ (if pl \<and> \<not> hasSentPageLoadBeacon s then [PageLoadBeaconTask d] else [])"
  by (simp add: hand_over_def Let_def setImmediate_def)

lemma real_sendBeacon_idle: "\<not> beaconQueued s \<Longrightarrow> real_sendBeacon env s = (Inr False, s)"
  by (simp add: real_sendBeacon_def)

lemma real_sendBeacon_clears: "beaconQueued (snd (real_sendBeacon env s)) = False"
  by (simp add: real_sendBeacon_def Let_def split: sum.splits)

lemma real_sendBeacon_counter:
  "beaconsSent (snd (real_sendBeacon env s)) =
     (if passes_gates env s then beaconsSent s + 1 else beaconsSent s)"
  by (simp add: real_sendBeacon_def passes_gates_def Let_def populate_def split: sum.splits)

lemma real_sendBeacon_latch:
  "hasSentPageLoadBeacon (snd (real_sendBeacon env s)) =
     (hasSentPageLoadBeacon s \<or> (passes_gates env s \<and> is_page_load s))"
  by (simp add: real_sendBeacon_def passes_gates_def is_page_load_def Let_def hand_over_latch
           split: sum.splits)


lemma real_sendBeacon_tasks:
  "\<exists>d. tasks (snd (real_sendBeacon env s)) =
     tasks s @ (if passes_gates env s \<and> is_page_load s \<and> \<not> hasSentPageLoadBeacon s
                then [PageLoadBeaconTask d] else [])"
proof (cases "passes_gates env s")
  case False
  then have "tasks (snd (real_sendBeacon env s)) = tasks s"
    by (auto simp add: real_sendBeacon_def passes_gates_def Let_def split: sum.splits)
  with False show ?thesis by simp
next
  case True
  let ?s1 = "s\<lparr>beaconQueued := False\<rparr>"
  let ?urls = "url_fields env (strip_query_string s) (impl_r s)
                 (is_spa (js_get (vars s) ''http.initiator'')) (vars s)"
  let ?snap = "snapshot env (populate env (snd ?urls) ?s1)"
  from True have eq: "real_sendBeacon env s = hand_over env (is_page_load s) (fst ?snap) (snd ?snap)"
    by (simp add: real_sendBeacon_def passes_gates_def is_page_load_def Let_def)
  obtain d where "tasks (snd (hand_over env (is_page_load s) (fst ?snap) (snd ?snap))) =
      tasks (snd ?snap) @
      (if is_page_load s \<and> \<not> hasSentPageLoadBeacon (snd ?snap) then [PageLoadBeaconTask d] else [])"
    using hand_over_tasks by blast
  with True eq show ?thesis by (intro exI[of _ d]) simp
qed

lemma cleanupURL_plain: "cleanupURL False url = Inr (if truthy url then url else JStr [])"
  by (simp add: cleanupURL_def)

lemma url_fields_plain: "fst (url_fields env False referrer spa vs) = Inr ()"
  by (simp add: url_fields_def cleanupURL_plain Let_def split: option.splits)

lemma passes_gates_plain:
  "\<not> strip_query_string s \<Longrightarrow>
   passes_gates env s = (beaconQueued s \<and> plugins_complete env s \<and> dom_available env)"
  by (simp add: passes_gates_def url_fields_plain)

lemma transports_emit: "transports (emit es s) = transports s @ filter is_transport es"
  by (simp add: transports_def emit_def)

lemma transports_trace: "trace t = trace s \<Longrightarrow> transports t = transports s"
  by (simp add: transports_def)

lemma transports_fire_public [simp]: "transports (fire_public env e d s) = transports s"
  by (simp add: fire_public_def transports_emit split: option.splits)

lemma transports_fire_handlers [simp]: "transports (fire_handlers e d s) = transports s"
  by (simp add: fire_handlers_def transports_def emit_def Let_def filter_map comp_def)

lemma transports_noflush [simp]: "transports (fireEvent_noflush env e d s) = transports s"
  by (simp add: fireEvent_noflush_def Let_def)

lemma transports_snapshot [simp]: "transports (snd (snapshot env s)) = transports s"
  by (simp add: snapshot_def Let_def transports_def removeVar_eq)
    (simp add: transports_def[symmetric])

lemma transports_populate [simp]: "transports (populate env vs s) = transports s"
  by (simp add: populate_def Let_def transports_def)

section \<open>Sequences of calls\<close>

lemma fireEvent_counter: "beaconsSent s \<le> beaconsSent (snd (fireEvent env e d s))"
  by (simp add: fireEvent_def Let_def real_sendBeacon_counter split: sum.splits)

lemma fireEvent_latch:
  "hasSentPageLoadBeacon s \<Longrightarrow> hasSentPageLoadBeacon (snd (fireEvent env e d s))"
  by (simp add: fireEvent_def Let_def real_sendBeacon_latch split: sum.splits)


lemma run_next_counter: "beaconsSent s \<le> beaconsSent (snd (run_next env s))"
proof (cases "tasks s")
  case Nil
  then show ?thesis by (simp add: run_next_def)
next
  case (Cons t ts)
  have "beaconsSent (s\<lparr>tasks := ts\<rparr>) \<le> beaconsSent (snd (run_task env t (s\<lparr>tasks := ts\<rparr>)))"
    using fireEvent_counter[of "s\<lparr>tasks := ts\<rparr>"]
    by (cases t) (simp_all add: run_task_def Let_def real_sendBeacon_counter)
  with Cons show ?thesis by (simp add: run_next_def)
qed

lemma run_next_latch:
  assumes "hasSentPageLoadBeacon s"
  shows "hasSentPageLoadBeacon (snd (run_next env s))"
proof (cases "tasks s")
  case Nil
  with assms show ?thesis by (simp add: run_next_def)
next
  case (Cons t ts)
  from assms have "hasSentPageLoadBeacon (s\<lparr>tasks := ts\<rparr>)" by simp
  then have "hasSentPageLoadBeacon (snd (run_task env t (s\<lparr>tasks := ts\<rparr>)))"
    using fireEvent_latch[of "s\<lparr>tasks := ts\<rparr>"]
    by (cases t) (simp_all add: run_task_def Let_def real_sendBeacon_latch)
  with Cons show ?thesis by (simp add: run_next_def)
qed


lemma step_counter: "beaconsSent s \<le> beaconsSent (step c s)"
proof (cases c)
  case (Pair env k)
  then show ?thesis
    by (cases k) (simp_all add: real_sendBeacon_counter fireEvent_counter run_next_counter)
qed

lemma step_latch: "hasSentPageLoadBeacon s \<Longrightarrow> hasSentPageLoadBeacon (step c s)"
proof (cases c)
  case (Pair env k)
  assume "hasSentPageLoadBeacon s"
  with Pair show ?thesis
    by (cases k) (simp_all add: real_sendBeacon_latch fireEvent_latch run_next_latch)
qed

lemma run_counter: "beaconsSent s \<le> beaconsSent (run calls s)"
  unfolding run_def
proof (induction calls arbitrary: s)
  case Nil
  show ?case by simp
next
  case (Cons c calls)
  have "beaconsSent s \<le> beaconsSent (step c s)" by (rule step_counter)
  also have "\<dots> \<le> beaconsSent (fold step calls (step c s))" by (rule Cons.IH)
  finally show ?case by simp
qed

lemma run_latch: "hasSentPageLoadBeacon s \<Longrightarrow> hasSentPageLoadBeacon (run calls s)"
  unfolding run_def by (induction calls arbitrary: s) (simp_all add: step_latch)

section \<open>Coalescing of flush requests\<close>

lemma sendBeacon_when_queued:
  "beaconQueued s \<Longrightarrow>
   snd (sendBeacon u s) =
     (case u of None \<Rightarrow> s | Some v \<Rightarrow> if v \<noteq> [] then s\<lparr>beacon_url_override := Some v\<rparr> else s)"
  by (simp add: sendBeacon_def Let_def split: option.splits)

lemma sendBeacon_sets_flag: "beaconQueued (snd (sendBeacon u s))"
  by (simp add: sendBeacon_def Let_def split: option.splits)

lemma sendBeacon_tasks:
  "tasks (snd (sendBeacon u s)) = tasks s @ (if beaconQueued s then [] else [RealSendBeaconTask])"
  by (simp add: sendBeacon_def Let_def setImmediate_def split: option.splits)

lemma send_all_queued:
  "beaconQueued s \<Longrightarrow> tasks (send_all us s) = tasks s \<and> beaconQueued (send_all us s)"
  unfolding send_all_def
  by (induction us arbitrary: s) (simp_all add: sendBeacon_tasks sendBeacon_sets_flag)

lemma send_all_first:
  assumes "us \<noteq> []"
  shows "tasks (send_all us s) = tasks s @ (if beaconQueued s then [] else [RealSendBeaconTask])"
    and "beaconQueued (send_all us s)"
proof -
  from assms obtain u rest where us: "us = u # rest" by (cases us) auto
  have step: "send_all us s = send_all rest (snd (sendBeacon u s))"
    by (simp add: us send_all_def)
  have q: "beaconQueued (snd (sendBeacon u s))" by (rule sendBeacon_sets_flag)
  from send_all_queued[OF q, of rest] step
  show "tasks (send_all us s) = tasks s @ (if beaconQueued s then [] else [RealSendBeaconTask])"
    and "beaconQueued (send_all us s)"
    by (simp_all add: sendBeacon_tasks)
qed

lemma transports_updates [simp]:
  "transports (s\<lparr>beaconQueued := b\<rparr>) = transports s"
  "transports (s\<lparr>vars := v\<rparr>) = transports s"
  "transports (s\<lparr>hasSentPageLoadBeacon := b\<rparr>) = transports s"
  "transports (s\<lparr>beacon_url := u\<rparr>) = transports s"
  "transports (setImmediate t s) = transports s"
  by (simp_all add: transports_def setImmediate_def)

lemma rate_limited_no_transport:
  "rate_limited env \<Longrightarrow> transports (snd (real_sendBeacon env s)) = transports s"
  by (simp add: real_sendBeacon_def Let_def hand_over_def split: sum.splits)

lemma rate_limited_result:
  "passes_gates env s \<Longrightarrow> rate_limited env \<Longrightarrow> fst (real_sendBeacon env s) = Inr False"
  by (simp add: real_sendBeacon_def passes_gates_def Let_def hand_over_def)

lemma beacon_target_keeps:
  "beacon_url t = beacon_url s \<Longrightarrow> beacon_url_override t = beacon_url_override s \<Longrightarrow>
   beacon_target t = beacon_target s"
  by (simp add: beacon_target_def split: option.splits)

lemma no_url_no_transport:
  "beacon_target s = [] \<Longrightarrow> transports (snd (real_sendBeacon env s)) = transports s"
proof -
  assume none: "beacon_target s = []"
  have send: "transports (snd (snd (sendBeaconData env d t))) = transports t"
    if "beacon_target t = []" for d t
    using that by (simp add: sendBeaconData_def Let_def)
  have hand: "transports (snd (hand_over env pl d t)) = transports t"
    if "beacon_target t = []" for pl d t
  proof -
    have "beacon_target (t\<lparr>hasSentPageLoadBeacon := True\<rparr>) = beacon_target t"
      by (rule beacon_target_keeps) simp_all
    with that have "beacon_target (t\<lparr>hasSentPageLoadBeacon := True\<rparr>) = []"
      by simp
    with that show ?thesis
      by (simp add: hand_over_def Let_def send)
  qed
  have snap: "beacon_target (snd (snapshot env (populate env v (s\<lparr>beaconQueued := False\<rparr>)))) = []" for v
    using none beacon_target_keeps[of "snd (snapshot env (populate env v (s\<lparr>beaconQueued := False\<rparr>)))" s]
    by simp
  show ?thesis
    by (simp add: real_sendBeacon_def Let_def hand[OF snap] split: sum.splits)
qed

lemma queued_facts:
  "beaconQueued queued" "\<not> strip_query_string queued" "beaconsSent queued = 0"
  "trace queued = []" "disabled_plugins queued = []" "\<not> hasSentPageLoadBeacon queued"
  "tasks queued = [RealSendBeaconTask]" "vars queued = []"
  "beacon_url queued = ''https://collector.example/b''" "beacon_url_override queued = None"
  by (simp_all add: queued_def configured_def initial_def sendBeacon_def setImmediate_def)

lemma browser_gates:
  "\<not> strip_query_string s \<Longrightarrow> disabled_plugins s = [] \<Longrightarrow>
   passes_gates browser s = beaconQueued s"
  "\<not> strip_query_string s \<Longrightarrow> disabled_plugins s = [] \<Longrightarrow>
   passes_gates rate_limited_browser s = beaconQueued s"
  by (simp_all add: passes_gates_plain plugins_complete_def browser_def rate_limited_browser_def)

text \<open>
  C4, the claim as stated fails: in a browser whose session is rate-limited, a requested
  flush returns \<^verbatim>\<open>false\<close> and invokes no transport, and \<^verbatim>\<open>beaconsSent\<close> goes from 0 to 1.
  The same holds for a flush with no beacon URL configured.
\<close>

theorem rate_limited_flush_is_counted:
  "rate_limited rate_limited_browser \<and>
   fst (real_sendBeacon rate_limited_browser queued) = Inr False \<and>
   transports (snd (real_sendBeacon rate_limited_browser queued)) = [] \<and>
   beaconsSent queued = 0 \<and>
   beaconsSent (snd (real_sendBeacon rate_limited_browser queued)) = 1 \<and>
   beacon_url queued_without_url = [] \<and>
   transports (snd (real_sendBeacon browser queued_without_url)) = [] \<and>
   beaconsSent queued_without_url = 0 \<and>
   beaconsSent (snd (real_sendBeacon browser queued_without_url)) = 1"
proof -
  have rl: "rate_limited rate_limited_browser"
    by (simp add: rate_limited_browser_def)
  have g: "passes_gates rate_limited_browser queued"
    by (simp add: browser_gates queued_facts)
  have t: "transports (snd (real_sendBeacon rate_limited_browser queued)) = []"
    by (simp add: rate_limited_no_transport[OF rl]) (simp add: transports_def queued_facts)
  have q: "beaconQueued queued_without_url" "\<not> strip_query_string queued_without_url"
    "disabled_plugins queued_without_url = []" "beaconsSent queued_without_url = 0"
    "beacon_url queued_without_url = []" "beacon_target queued_without_url = []"
    "trace queued_without_url = []"
    by (simp_all add: queued_without_url_def initial_def sendBeacon_def setImmediate_def
          beacon_target_def)
  have t2: "transports (snd (real_sendBeacon browser queued_without_url)) = []"
    by (simp add: no_url_no_transport[OF q(6)]) (simp add: transports_def q)
  have g2: "passes_gates browser queued_without_url"
    by (simp add: browser_gates q)
  show ?thesis
    using rl rate_limited_result[OF g rl] t t2
    by (simp add: real_sendBeacon_counter g g2 queued_facts q)
qed

text \<open>
  C7 (as amended). \<^verbatim>\<open>hasSentPageLoadBeacon\<close> is a one-way latch: once true it stays true
  over any sequence of calls. A call of \<^verbatim>\<open>real_sendBeacon\<close> sets it exactly when the flush
  passes its guards and \<^verbatim>\<open>http.initiator\<close> is undefined or one of \<^verbatim>\<open>"spa"\<close>, \<^verbatim>\<open>"spa_hard"\<close>;
  the \<^verbatim>\<open>page_load_beacon\<close> callback is scheduled by that call only when it turns the latch
  from false to true, and by no call once the latch is set; the callback fires the event.
\<close>

theorem page_load_latch:
  "(hasSentPageLoadBeacon s \<longrightarrow> hasSentPageLoadBeacon (run calls s)) \<and>
   hasSentPageLoadBeacon (snd (real_sendBeacon env s)) =
     (hasSentPageLoadBeacon s \<or> (passes_gates env s \<and> is_page_load s)) \<and>
   (\<exists>varsSent. tasks (snd (real_sendBeacon env s)) =
      tasks s @ (if passes_gates env s \<and> is_page_load s \<and> \<not> hasSentPageLoadBeacon s
                 then [PageLoadBeaconTask varsSent] else [])) \<and>
   run_task env (PageLoadBeaconTask d) s = fireEvent env ''page_load_beacon'' (Vars d) s"
  using run_latch[of s calls] real_sendBeacon_latch[of env s] real_sendBeacon_tasks[of env s]
  by (simp add: run_task_def)

lemma spa_facts:
  "beaconQueued spa_queued" "\<not> strip_query_string spa_queued" "disabled_plugins spa_queued = []"
  "\<not> hasSentPageLoadBeacon spa_queued"
  "js_get (vars spa_queued) ''http.initiator'' = JStr ''spa''"
  "beaconQueued empty_initiator_queued" "\<not> strip_query_string empty_initiator_queued"
  "disabled_plugins empty_initiator_queued = []" "\<not> hasSentPageLoadBeacon empty_initiator_queued"
  "js_get (vars empty_initiator_queued) ''http.initiator'' = JStr []"
  by (simp_all add: spa_queued_def empty_initiator_queued_def configured_def initial_def
        sendBeacon_def setImmediate_def addVar_def js_set_def js_get_def hasOwnProperty_def
        is_array_index_def is_digit_def)

text \<open>
  C7, the claim as stated fails: the first flush, with \<^verbatim>\<open>http.initiator\<close> set to \<^verbatim>\<open>"spa"\<close>
  (neither absent nor empty), sets the latch; and a first flush with \<^verbatim>\<open>http.initiator\<close> set
  to the empty string does not.
\<close>

theorem spa_flush_sets_latch:
  "js_get (vars spa_queued) ''http.initiator'' = JStr ''spa'' \<and>
   \<not> hasSentPageLoadBeacon spa_queued \<and>
   hasSentPageLoadBeacon (snd (real_sendBeacon browser spa_queued)) \<and>
   js_get (vars empty_initiator_queued) ''http.initiator'' = JStr [] \<and>
   passes_gates browser empty_initiator_queued \<and>
   \<not> hasSentPageLoadBeacon (snd (real_sendBeacon browser empty_initiator_queued))"
  by (simp add: real_sendBeacon_latch browser_gates spa_facts is_page_load_def is_spa_def)

theorem page_load_latch_example:
  "hasSentPageLoadBeacon (snd (real_sendBeacon browser queued)) \<and>
   hasSentPageLoadBeacon (run [(browser, SendBeacon None), (browser, RunNext)]
      (snd (real_sendBeacon browser queued))) \<and>
   (\<exists>varsSent. tasks (snd (real_sendBeacon browser queued)) =
      [RealSendBeaconTask, PageLoadBeaconTask varsSent]) \<and>
   tasks (snd (real_sendBeacon browser (snd (sendBeacon None (snd (real_sendBeacon browser queued))))))
     = tasks (snd (sendBeacon None (snd (real_sendBeacon browser queued))))"
proof -
  let ?s1 = "snd (real_sendBeacon browser queued)"
  let ?s2 = "snd (sendBeacon None ?s1)"
  have g: "passes_gates browser queued" by (simp add: browser_gates queued_facts)
  have p: "is_page_load queued" by (simp add: is_page_load_def queued_facts js_get_def)
  from page_load_latch[of queued "[]" browser] g p
  have l1: "hasSentPageLoadBeacon ?s1"
    and t1: "\<exists>varsSent. tasks ?s1 = [RealSendBeaconTask, PageLoadBeaconTask varsSent]"
    by (simp_all add: queued_facts)
  from page_load_latch[of ?s1 "[(browser, SendBeacon None), (browser, RunNext)]" browser] l1
  have l2: "hasSentPageLoadBeacon (run [(browser, SendBeacon None), (browser, RunNext)] ?s1)"
    by simp
  have l3: "hasSentPageLoadBeacon ?s2" using l1 by simp
  from page_load_latch[of ?s2 "[]" browser] l3
  have t2: "tasks (snd (real_sendBeacon browser ?s2)) = tasks ?s2" by simp
  from l1 l2 t1 t2 show ?thesis by simp
qed

section \<open>The beacon URL override\<close>



lemma beaconUrlAllowed_cong:
  "beacon_urls_allowed t = beacon_urls_allowed s \<Longrightarrow> beaconUrlAllowed env t = beaconUrlAllowed env s"
  by (simp add: beaconUrlAllowed_def fun_eq_iff)



section \<open>The request-object transport\<close>

lemma xhr_sends_emit: "xhr_sends (emit es s) = xhr_sends s @ filter is_xhr_send es"
  by (simp add: xhr_sends_def emit_def)

lemma xhr_sends_updates [simp]:
  "xhr_sends (s\<lparr>beacon_url := u\<rparr>) = xhr_sends s"
  "xhr_sends (s\<lparr>beacon_auth_key := k\<rparr>) = xhr_sends s"
  by (simp_all add: xhr_sends_def)

lemma xhr_sends_fire_public [simp]: "xhr_sends (fire_public env e d s) = xhr_sends s"
  by (simp add: fire_public_def xhr_sends_emit split: option.splits)

lemma xhr_sends_fire_handlers [simp]: "xhr_sends (fire_handlers e d s) = xhr_sends s"
  by (simp add: fire_handlers_def xhr_sends_def emit_def Let_def filter_map comp_def)

lemma xhr_sends_noflush [simp]: "xhr_sends (fireEvent_noflush env e d s) = xhr_sends s"
  by (simp add: fireEvent_noflush_def Let_def)

lemma sendXhrPostBeacon_result:
  "fst (sendXhrPostBeacon env ctx body s) =
     (if xhr_fails env ctx = ThrowsOnOpen \<or> xhr_fails env ctx = ThrowsOnSend
      then Inl RequestError else Inr ())"
  by (simp add: sendXhrPostBeacon_def Let_def)

lemma sendXhrPostBeacon_sends:
  "xhr_sends (snd (sendXhrPostBeacon env ctx body s)) =
     xhr_sends s @
     (if xhr_fails env ctx = ThrowsOnOpen \<or> xhr_fails env ctx = ThrowsOnSend
      then [] else [XhrSend ctx body])"
  by (simp add: sendXhrPostBeacon_def Let_def xhr_sends_emit split: option.splits)

lemma xhr_beacon_retry:
  assumes "xhr_fails env PrimaryWindow = ThrowsOnOpen \<or> xhr_fails env PrimaryWindow = ThrowsOnSend"
  shows "fst (xhr_beacon env body s) =
           (if xhr_fails env BoomerangFrame = NoFailure then Inr True else Inl RequestError)"
    and "xhr_sends (snd (xhr_beacon env body s)) =
           xhr_sends s @
           (if xhr_fails env BoomerangFrame = NoFailure then [XhrSend BoomerangFrame body] else [])"
proof -
  have frame: "xhr_fails env BoomerangFrame = NoFailure \<or>
               xhr_fails env BoomerangFrame = ThrowsOnConstruct \<or>
               xhr_fails env BoomerangFrame = ThrowsOnOpen \<or>
               xhr_fails env BoomerangFrame = ThrowsOnSend"
    by (cases "xhr_fails env BoomerangFrame") simp_all
  from assms frame
  show "fst (xhr_beacon env body s) =
           (if xhr_fails env BoomerangFrame = NoFailure then Inr True else Inl RequestError)"
    by (auto simp add: xhr_beacon_def Let_def sendXhrPostBeacon_result)
  from assms frame
  show "xhr_sends (snd (xhr_beacon env body s)) =
           xhr_sends s @
           (if xhr_fails env BoomerangFrame = NoFailure then [XhrSend BoomerangFrame body] else [])"
    by (auto simp add: xhr_beacon_def Let_def sendXhrPostBeacon_result sendXhrPostBeacon_sends)
qed

lemma transmit_uses_xhr:
  assumes "beacon_type s = ''POST'' \<or> (beacon_type s \<noteq> ''GET'' \<and> 2000 < length url)"
    and "has_XMLHttpRequest env"
    and "\<not> native_sendBeacon env \<or> beacon_auth_token s \<noteq> None \<or> beacon_disable_sendbeacon s"
  shows "transmit env url body s = xhr_beacon env body s"
  using assms by (auto simp add: transmit_def Let_def)

lemma params_joined_cong:
  "varPriority_first t = varPriority_first s \<Longrightarrow> varPriority_last t = varPriority_last s \<Longrightarrow>
   params_joined env t data = params_joined env s data"
  by (simp add: params_joined_def getVarsOfPriority_def)

lemma sendBeaconData_uses_xhr:
  assumes "passes_checks env data s" and "beacon_type s = ''POST''" and "has_XMLHttpRequest env"
    and "\<not> native_sendBeacon env \<or> beacon_auth_token s \<noteq> None \<or> beacon_disable_sendbeacon s"
  shows "\<exists>t. xhr_sends t = xhr_sends s \<and>
             fst (sendBeaconData env data s) =
               fst (xhr_beacon env (request_body (fst (params_joined env s data))) t) \<and>
             snd (snd (sendBeaconData env data s)) =
               snd (xhr_beacon env (request_body (fst (params_joined env s data))) t)"
proof -
  let ?s1 = "s\<lparr>beacon_url := beacon_target s\<rparr>"
  let ?s2 = "fireEvent_noflush env ''beacon'' (Vars data) ?s1"
  let ?s3 = "if beacon_url_force_https ?s2 \<and> starts_with ''//'' (beacon_url ?s2)
             then ?s2\<lparr>beacon_url := ''https:'' @ beacon_url ?s2\<rparr> else ?s2"
  let ?joined = "params_joined env ?s2 data"
  have allowed: "beaconUrlAllowed env ?s1 = beaconUrlAllowed env s"
    by (simp add: beaconUrlAllowed_def fun_eq_iff)
  have j: "?joined = params_joined env s data"
    by (rule params_joined_cong) simp_all
  have unfold: "sendBeaconData env data s =
      (fst (transmit env (request_url (beacon_url ?s3) (fst ?joined)) (request_body (fst ?joined)) ?s3),
       snd ?joined,
       snd (transmit env (request_url (beacon_url ?s3) (fst ?joined)) (request_body (fst ?joined)) ?s3))"
    using assms(1) by (simp add: sendBeaconData_def passes_checks_def Let_def allowed)
  have t3: "beacon_type ?s3 = ''POST''" "beacon_auth_token ?s3 = beacon_auth_token s"
    "beacon_disable_sendbeacon ?s3 = beacon_disable_sendbeacon s" "xhr_sends ?s3 = xhr_sends s"
    using assms(2) by simp_all
  have "transmit env (request_url (beacon_url ?s3) (fst ?joined)) (request_body (fst ?joined)) ?s3
        = xhr_beacon env (request_body (fst ?joined)) ?s3"
    by (rule transmit_uses_xhr) (use t3 assms(3,4) in simp_all)
  with unfold j t3(4) show ?thesis
    by (intro exI[of _ ?s3]) simp
qed

text \<open>
  What the code does in general when \<^verbatim>\<open>sendBeaconData\<close> uses the request object (the checks
  pass, the type is \<^verbatim>\<open>POST\<close>, the native primitive is not used) and the request of the
  page's window throws at \<^verbatim>\<open>open\<close> or \<^verbatim>\<open>send\<close>: the frame's request is tried once; if it
  does not fail, the body is sent through it once and the result is \<^verbatim>\<open>true\<close>; if it fails as
  well, nothing is sent and the second exception is not caught.
\<close>

lemma xhr_retry_outcome:
  assumes "passes_checks env data s" and "beacon_type s = ''POST''" and "has_XMLHttpRequest env"
    and "\<not> native_sendBeacon env \<or> beacon_auth_token s \<noteq> None \<or> beacon_disable_sendbeacon s"
    and "xhr_fails env PrimaryWindow = ThrowsOnOpen \<or> xhr_fails env PrimaryWindow = ThrowsOnSend"
  shows "fst (sendBeaconData env data s) =
           (if xhr_fails env BoomerangFrame = NoFailure then Inr True else Inl RequestError) \<and>
         xhr_sends (snd (snd (sendBeaconData env data s))) =
           xhr_sends s @
           (if xhr_fails env BoomerangFrame = NoFailure
            then [XhrSend BoomerangFrame (request_body (fst (params_joined env s data)))]
            else [])"
proof -
  from sendBeaconData_uses_xhr[OF assms(1-4)] obtain t where
    t: "xhr_sends t = xhr_sends s"
    "fst (sendBeaconData env data s) =
       fst (xhr_beacon env (request_body (fst (params_joined env s data))) t)"
    "snd (snd (sendBeaconData env data s)) =
       snd (xhr_beacon env (request_body (fst (params_joined env s data))) t)"
    by blast
  from xhr_beacon_retry[OF assms(5), of "request_body (fst (params_joined env s data))" t] t
  show ?thesis by simp
qed

text \<open>
  C8, at the input where the code fails it: with the type \<^verbatim>\<open>POST\<close>, no native beacon
  primitive and a request object that throws at \<^verbatim>\<open>send\<close> in the page's window and in the
  frame, \<^verbatim>\<open>sendBeaconData\<close> sends nothing and throws to its caller, and so does the flush
  that called it: the retry is made inside the \<^verbatim>\<open>catch\<close> block with no handler around it.
  The neighbouring failures are caught: when only the page's window throws, the frame's
  request sends the body and the result is \<^verbatim>\<open>true\<close>; when the image cannot be created, the
  result is \<^verbatim>\<open>false\<close>.
\<close>

theorem both_contexts_throw:
  "fst (sendBeaconData failing_xhr_browser [(''a'', JNum 1)] post_configured) = Inl RequestError \<and>
   xhr_sends (snd (snd (sendBeaconData failing_xhr_browser [(''a'', JNum 1)] post_configured))) = [] \<and>
   fst (real_sendBeacon failing_xhr_browser (snd (sendBeacon None post_configured))) = Inl RequestError \<and>
   fst (sendBeaconData failing_primary_browser [(''a'', JNum 1)] post_configured) = Inr True \<and>
   xhr_sends (snd (snd (sendBeaconData failing_primary_browser [(''a'', JNum 1)] post_configured))) =
     [XhrSend BoomerangFrame ''a=1&http.initiator=page''] \<and>
   fst (sendBeaconData throwing_image_browser [(''a'', JNum 1)] configured) = Inr False \<and>
   transports (snd (snd (sendBeaconData throwing_image_browser [(''a'', JNum 1)] configured))) = []"
  by code_simp

section \<open>Objects: assignment and deletion\<close>

lemma map_of_replace:
  "map_of (map (\<lambda>p. if fst p = k then (k, v) else p) obj) n =
     (if n = k then (if hasOwnProperty obj k then Some v else None) else map_of obj n)"
  by (induction obj) (auto simp: hasOwnProperty_def split: option.splits)

lemma map_of_insert_index:
  "\<not> hasOwnProperty obj k \<Longrightarrow>
   map_of (insert_index k v obj) n = (if n = k then Some v else map_of obj n)"
  by (induction obj) (auto simp: hasOwnProperty_def split: option.splits if_splits)

lemma map_of_append_new:
  "\<not> hasOwnProperty obj k \<Longrightarrow>
   map_of (obj @ [(k, v)]) n = (if n = k then Some v else map_of obj n)"
  by (auto simp: hasOwnProperty_def map_add_def split: option.splits)

lemma map_of_js_set:
  "map_of (js_set k v obj) n =
     (if n = k \<and> (k \<noteq> ''__proto__'' \<or> hasOwnProperty obj k) then Some v else map_of obj n)"
proof (cases "hasOwnProperty obj k")
  case True
  then show ?thesis by (simp add: js_set_def map_of_replace)
next
  case False
  show ?thesis
  proof (cases "k = ''__proto__''")
    case True
    with False show ?thesis by (simp add: js_set_def)
  next
    case named: False
    show ?thesis
    proof (cases "is_array_index k")
      case True
      with False named show ?thesis by (simp add: js_set_def map_of_insert_index)
    next
      case no_index: False
      have "map_of (js_set k v obj) n = map_of (obj @ [(k, v)]) n"
        using False named no_index by (simp add: js_set_def)
      also have "\<dots> = (if n = k then Some v else map_of obj n)"
        by (rule map_of_append_new[OF False])
      finally show ?thesis using named by simp
    qed
  qed
qed

lemma hasOwnProperty_js_set:
  "hasOwnProperty (js_set k v obj) n \<longleftrightarrow> (n = k \<and> k \<noteq> ''__proto__'') \<or> hasOwnProperty obj n"
  by (auto simp add: hasOwnProperty_def map_of_js_set)

lemma js_get_js_set:
  "js_get (js_set k v obj) n =
     (if n = k \<and> (k \<noteq> ''__proto__'' \<or> hasOwnProperty obj k) then v else js_get obj n)"
  by (auto simp add: js_get_def map_of_js_set)

lemma hasOwnProperty_fold_set:
  "hasOwnProperty (fold (\<lambda>k vs. js_set k (f k) vs) ks vs) n \<longleftrightarrow>
     (n \<in> set ks \<and> n \<noteq> ''__proto__'') \<or> hasOwnProperty vs n"
  by (induction ks arbitrary: vs) (auto simp: hasOwnProperty_js_set)

lemma hasOwnProperty_fold_delete:
  "hasOwnProperty (fold (\<lambda>k vs. if hasOwnProperty vs k then js_delete k vs else vs) ps vs) n
     \<longleftrightarrow> hasOwnProperty vs n \<and> n \<notin> set ps"
  by (induction ps arbitrary: vs) (auto simp: hasOwnProperty_js_delete)


section \<open>Single-use variables\<close>

lemma url_fields_keeps_names:
  "hasOwnProperty vs n \<Longrightarrow> n \<noteq> ''pgu'' \<Longrightarrow> n \<noteq> ''r'' \<Longrightarrow>
   hasOwnProperty (snd (url_fields env strip ref spa vs)) n"
  by (auto simp add: url_fields_def Let_def hasOwnProperty_js_set hasOwnProperty_js_delete
        split: sum.splits option.splits)

lemma derived_fields_keeps_names:
  "hasOwnProperty vs n \<Longrightarrow> hasOwnProperty (derived_fields env vs) n"
  by (auto simp add: derived_fields_def Let_def hasOwnProperty_js_set split: option.splits)

lemma populate_keeps_names:
  "hasOwnProperty vs n \<Longrightarrow> hasOwnProperty (vars (populate env vs s)) n"
  by (simp add: populate_def Let_def hasOwnProperty_js_set derived_fields_keeps_names)

lemma in_names: "n \<in> set (map fst obj) \<longleftrightarrow> hasOwnProperty obj n"
  by (simp add: hasOwnProperty_iff)

lemma removeVar_names:
  "hasOwnProperty (vars (removeVar ps s)) n \<longleftrightarrow> hasOwnProperty (vars s) n \<and> n \<notin> set ps"
  by (simp add: removeVar_eq hasOwnProperty_fold_delete)

lemma snapshot_names:
  "hasOwnProperty (vars (snd (snapshot env s))) n \<longleftrightarrow>
     hasOwnProperty (vars s) n \<and> n \<noteq> ''qt'' \<and> n \<noteq> ''pgu'' \<and> \<not> hasOwnProperty (singleBeaconVars s) n"
proof -
  let ?s1 = "fireEvent_noflush env ''before_beacon'' (Vars (vars s)) s"
  have "vars (snd (snapshot env s)) =
        vars (removeVar (map fst (singleBeaconVars ?s1)) (removeVar [''qt'', ''pgu''] ?s1))"
    by (simp add: snapshot_def Let_def)
  then have "hasOwnProperty (vars (snd (snapshot env s))) n \<longleftrightarrow>
      (hasOwnProperty (vars ?s1) n \<and> n \<notin> set [''qt'', ''pgu'']) \<and>
      n \<notin> set (map fst (singleBeaconVars ?s1))"
    by (simp only: removeVar_names)
  then show ?thesis
    by (simp only: in_names) auto
qed

lemma flushed_names:
  assumes "passes_gates env s"
  shows "hasOwnProperty (vars (snd (real_sendBeacon env s))) n \<longleftrightarrow>
     hasOwnProperty
       (vars (populate env
          (snd (url_fields env (strip_query_string s) (impl_r s)
                  (is_spa (js_get (vars s) ''http.initiator'')) (vars s)))
          (s\<lparr>beaconQueued := False\<rparr>))) n \<and>
     n \<noteq> ''qt'' \<and> n \<noteq> ''pgu'' \<and> \<not> hasOwnProperty (singleBeaconVars s) n"
  using assms
  by (simp add: real_sendBeacon_def passes_gates_def Let_def snapshot_names)

lemma unmarked_name_survives:
  assumes "passes_gates env s" and "hasOwnProperty (vars s) n"
    and "\<not> hasOwnProperty (singleBeaconVars s) n"
    and "n \<noteq> ''qt''" and "n \<noteq> ''pgu''" and "n \<noteq> ''r''"
  shows "hasOwnProperty (vars (snd (real_sendBeacon env s))) n"
  using assms
  by (simp add: flushed_names populate_keeps_names url_fields_keeps_names)

lemma marked_name_removed:
  "passes_gates env s \<Longrightarrow> hasOwnProperty (singleBeaconVars s) n \<Longrightarrow>
   \<not> hasOwnProperty (vars (snd (real_sendBeacon env s))) n"
  by (simp add: flushed_names)

lemma passes_gates_addVar:
  "passes_gates env (addVar name val single s) \<Longrightarrow> beaconQueued s"
  by (simp add: passes_gates_def)

text \<open>
  What the code does in general: \<^verbatim>\<open>addVar\<close> in bulk form with \<^verbatim>\<open>singleBeacon\<close> set makes
  one assignment to the single-use set, under the name \<^verbatim>\<open>[object Object]\<close>, so a name is
  marked after the call exactly if it is that one or was marked before; a variable of the
  object whose name is not marked so, and is none of \<^verbatim>\<open>qt\<close>, \<^verbatim>\<open>pgu\<close>, \<^verbatim>\<open>r\<close> and
  \<^verbatim>\<open>__proto__\<close>, is still in the store after the next flush. The string form marks the name
  it is given (\<^verbatim>\<open>__proto__\<close> apart), and the next flush removes that variable.
\<close>

lemma bulk_addVar_marks:
  "singleBeaconVars (addVar (Bulk obj) val True s) =
     js_set ''[object Object]'' (JNum 1) (singleBeaconVars s)"
  "hasOwnProperty (singleBeaconVars (addVar (Bulk obj) val True s)) n \<longleftrightarrow>
      n = ''[object Object]'' \<or> hasOwnProperty (singleBeaconVars s) n"
  by (simp_all add: addVar_def hasOwnProperty_js_set)

lemma bulk_addVar_persists:
  assumes "hasOwnProperty obj n" and "n \<noteq> ''[object Object]''"
    and "\<not> hasOwnProperty (singleBeaconVars s) n"
    and "n \<noteq> ''qt''" and "n \<noteq> ''pgu''" and "n \<noteq> ''r''" and "n \<noteq> ''__proto__''"
    and "passes_gates env (addVar (Bulk obj) val True s)"
  shows "hasOwnProperty (vars (snd (real_sendBeacon env (addVar (Bulk obj) val True s)))) n"
proof -
  let ?b = "addVar (Bulk obj) val True s"
  have added: "hasOwnProperty (vars ?b) n"
    using assms(1,7) in_names[of n obj] by (simp add: addVar_def hasOwnProperty_fold_set)
  have unmarked: "\<not> hasOwnProperty (singleBeaconVars ?b) n"
    using assms(2,3) by (simp add: addVar_def hasOwnProperty_js_set)
  from assms(8) added unmarked assms(4-6) show ?thesis
    by (rule unmarked_name_survives)
qed

lemma named_addVar_single_use:
  assumes "m \<noteq> ''__proto__''"
  shows "hasOwnProperty (singleBeaconVars (addVar (Name m) val True s)) m"
    and "passes_gates env (addVar (Name m) val True s) \<Longrightarrow>
         \<not> hasOwnProperty (vars (snd (real_sendBeacon env (addVar (Name m) val True s)))) m"
proof -
  show named: "hasOwnProperty (singleBeaconVars (addVar (Name m) val True s)) m"
    using assms by (simp add: addVar_def hasOwnProperty_js_set)
  show "\<not> hasOwnProperty (vars (snd (real_sendBeacon env (addVar (Name m) val True s)))) m"
    if "passes_gates env (addVar (Name m) val True s)"
    using that named by (rule marked_name_removed)
qed

text \<open>
  C10, at the input where the code fails it: \<^verbatim>\<open>addVar({"a": 1, "b": 2}, undefined, true)\<close>
  marks the one name \<^verbatim>\<open>[object Object]\<close> single-use, the object having been used as the
  property key, and \<^verbatim>\<open>a\<close> and \<^verbatim>\<open>b\<close> are still in the store after the next flush, although
  \<^verbatim>\<open>singleBeacon\<close> was set; \<^verbatim>\<open>addVar("c", 3, true)\<close> marks \<^verbatim>\<open>c\<close>, and the next flush
  removes it. The mark that the bulk call leaves is a real one: a key of the object spelled
  \<^verbatim>\<open>[object Object]\<close> is single-use and gone after the next flush, while its neighbour
  \<^verbatim>\<open>b\<close> stays; and a key that an earlier call marked is gone as well.
\<close>

theorem bulk_key_marked_single_use:
  "singleBeaconVars bulk_plain_example = [(''[object Object]'', JNum 1)] \<and>
   hasOwnProperty (vars (snd (real_sendBeacon browser bulk_plain_example))) ''a'' \<and>
   hasOwnProperty (vars (snd (real_sendBeacon browser bulk_plain_example))) ''b'' \<and>
   singleBeaconVars named_single_example = [(''c'', JNum 1)] \<and>
   hasOwnProperty (vars named_single_example) ''c'' \<and>
   \<not> hasOwnProperty (vars (snd (real_sendBeacon browser named_single_example))) ''c'' \<and>
   hasOwnProperty (singleBeaconVars bulk_single_example) ''[object Object]'' \<and>
   hasOwnProperty (vars bulk_single_example) ''[object Object]'' \<and>
   \<not> hasOwnProperty (vars (snd (real_sendBeacon browser bulk_single_example))) ''[object Object]'' \<and>
   hasOwnProperty (vars (snd (real_sendBeacon browser bulk_single_example))) ''b'' \<and>
   hasOwnProperty (singleBeaconVars marked_before_example) ''a'' \<and>
   js_get (vars marked_before_example) ''a'' = JNum 2 \<and>
   \<not> hasOwnProperty (vars (snd (real_sendBeacon browser marked_before_example))) ''a''"
  by code_simp

section \<open>Subscriptions\<close>

lemma handlers_of_events:
  "handlers_of s e = (case map_of (events s) e of None \<Rightarrow> [] | Some hs \<Rightarrow> hs)"
  by (simp add: handlers_of_def)

lemma subscribe_events:
  "events (subscribe env e f d sc oc s) =
     (let evs = (if hasOwnProperty (events s) (event_name env e) then events s
                 else js_set (event_name env e) [] (events s));
          ev = (case map_of evs (event_name env e) of None \<Rightarrow> [] | Some hs \<Rightarrow> hs)
      in if list_ex (\<lambda>h. fn h = f \<and> cb_data h = d \<and> scope h = sc) ev then evs
         else js_set (event_name env e)
                (ev @ [\<lparr> fn = f, cb_data = (if truthy d then d else JNew (allocated s)),
                          scope = (if truthy sc then sc else JNull), once = oc \<rparr>]) evs)"
  by (simp add: subscribe_def Let_def handlers_of_def)

lemma subscribe_finds_own:
  assumes "truthy d" and "truthy sc \<or> sc = JNull" and "event_name env e \<noteq> ''__proto__''"
  shows "list_ex (\<lambda>h. fn h = f \<and> cb_data h = d \<and> scope h = sc)
           (handlers_of (subscribe env e f d sc oc s) (event_name env e))"
proof -
  let ?e = "event_name env e"
  let ?P = "\<lambda>h. fn h = f \<and> cb_data h = d \<and> scope h = sc"
  let ?evs = "if hasOwnProperty (events s) ?e then events s else js_set ?e [] (events s)"
  let ?ev = "case map_of ?evs ?e of None \<Rightarrow> [] | Some hs \<Rightarrow> hs"
  let ?h = "\<lparr> fn = f, cb_data = (if truthy d then d else JNew (allocated s)),
              scope = (if truthy sc then sc else JNull), once = oc \<rparr>"
  have own: "?P ?h" using assms by auto
  show ?thesis
  proof (cases "list_ex ?P ?ev")
    case True
    then have "events (subscribe env e f d sc oc s) = ?evs"
      by (simp only: subscribe_events Let_def if_True)
    with True show ?thesis by (simp only: handlers_of_events)
  next
    case False
    then have "events (subscribe env e f d sc oc s) = js_set ?e (?ev @ [?h]) ?evs"
      by (simp only: subscribe_events Let_def if_False)
    then have "handlers_of (subscribe env e f d sc oc s) ?e = ?ev @ [?h]"
      using assms(3) by (simp add: handlers_of_events map_of_js_set)
    with own show ?thesis by (simp add: list_ex_iff)
  qed
qed


lemma subscribe_registered:
  "event_name env e \<noteq> ''__proto__'' \<Longrightarrow>
   hasOwnProperty (events (subscribe env e f d sc oc s)) (event_name env e)"
  by (simp add: subscribe_events Let_def hasOwnProperty_js_set)

text \<open>
  With callback data given and the scope given or \<^verbatim>\<open>null\<close>, subscribing again changes
  nothing. (The key \<^verbatim>\<open>__proto__\<close> can arise only as the engine's text of \<^verbatim>\<open>Object\<close>.)
\<close>

lemma subscribe_idempotent_when_given:
  assumes "truthy d" and "truthy sc \<or> sc = JNull" and "event_name env e \<noteq> ''__proto__''"
  shows "subscribe env e f d sc oc' (subscribe env e f d sc oc s) = subscribe env e f d sc oc s"
  using subscribe_registered[OF assms(3), of f d sc oc s] subscribe_finds_own[OF assms, of f oc s]
  by (subst subscribe_def) (simp add: Let_def)

text \<open>
  C3, at the input where the code fails it: the same function subscribed twice to
  \<^verbatim>\<open>xhr_load\<close> with callback data and scope left out is registered twice, and one fire of
  the event calls it twice; with callback data given and only the scope left out it is
  registered twice as well.
\<close>

theorem omitted_arguments_subscribe_twice:
  "map fn (handlers_of subscribed_twice ''xhr_load'') = [7, 7] \<and>
   trace (snd (fireEvent browser ''xhr_load'' (Value JNull) subscribed_twice)) =
     [Called 7 JNull (Value JNull) (JNew 0), Called 7 JNull (Value JNull) (JNew 1)] \<and>
   map fn (handlers_of
     (subscribe browser ''xhr_load'' 7 (JObj 1) JUndefined False
       (subscribe browser ''xhr_load'' 7 (JObj 1) JUndefined False initial)) ''xhr_load'') = [7, 7]"
  by code_simp

section \<open>The checks of the send path\<close>

text \<open>
  C5, at the input where the code fails it: with a beacon URL configured, an empty snapshot
  is not stopped by the test of \<^verbatim>\<open>data.length\<close> (an object has no such property): the
  native primitive is called, and where it is missing the image is requested. The test
  stops a snapshot that has a variable named \<^verbatim>\<open>length\<close> with the value 0.
\<close>

theorem empty_snapshot_is_transmitted:
  "fst (sendBeaconData browser [] configured) = Inr True \<and>
   transports (snd (snd (sendBeaconData browser [] configured))) =
     [NavigatorSendBeacon ''https://collector.example/b'' ''&http.initiator=page&sb=1''] \<and>
   transports (snd (snd (sendBeaconData image_browser [] configured))) =
     [ImageSrc ''https://collector.example/b?''] \<and>
   fst (sendBeaconData browser [(''length'', JNum 0), (''a'', JNum 1)] configured) = Inr False \<and>
   transports (snd (snd (sendBeaconData browser [(''length'', JNum 0), (''a'', JNum 1)] configured))) = []"
  by code_simp

text \<open>
  C9, at the input where the code fails it: the snapshot has no variable \<^verbatim>\<open>http.initiator\<close>
  but the value of another variable contains that text, and the body handed to the native
  primitive carries no \<^verbatim>\<open>http.initiator=page\<close>. For a snapshot without the text the
  parameter is appended to the body and is not in the image URL.
\<close>

theorem initiator_text_elsewhere:
  "\<not> hasOwnProperty [(''x'', JStr ''http.initiator'')] ''http.initiator'' \<and>
   transports (snd (snd (sendBeaconData browser [(''x'', JStr ''http.initiator'')] configured))) =
     [NavigatorSendBeacon ''https://collector.example/b'' ''x=http.initiator&sb=1''] \<and>
   transports (snd (snd (sendBeaconData browser [(''x'', JStr ''y'')] configured))) =
     [NavigatorSendBeacon ''https://collector.example/b'' ''x=y&http.initiator=page&sb=1''] \<and>
   transports (snd (snd (sendBeaconData image_browser [(''x'', JStr ''y'')] configured))) =
     [ImageSrc ''https://collector.example/b?x=y'']"
  by code_simp

section \<open>The beacon counter\<close>

lemma not_allowed_no_transport:
  assumes "\<not> beaconUrlAllowed env s (beacon_target s)"
  shows "transports (snd (real_sendBeacon env s)) = transports s"
proof -
  have send: "transports (snd (snd (sendBeaconData env d t))) = transports t"
    if "\<not> beaconUrlAllowed env t (beacon_target t)" for d t
  proof -
    have "beaconUrlAllowed env (t\<lparr>beacon_url := beacon_target t\<rparr>) = beaconUrlAllowed env t"
      by (rule beaconUrlAllowed_cong) simp
    with that show ?thesis by (simp add: sendBeaconData_def Let_def)
  qed
  have keep: "\<not> beaconUrlAllowed env t (beacon_target t)"
    if "beacon_url t = beacon_url s" "beacon_url_override t = beacon_url_override s"
       "beacon_urls_allowed t = beacon_urls_allowed s" for t
    using assms beacon_target_keeps[OF that(1,2)] beaconUrlAllowed_cong[OF that(3), of env]
    by simp
  have hand: "transports (snd (hand_over env pl d t)) = transports t"
    if "beacon_url t = beacon_url s" "beacon_url_override t = beacon_url_override s"
       "beacon_urls_allowed t = beacon_urls_allowed s" for pl d t
  proof -
    have "\<not> beaconUrlAllowed env t (beacon_target t)" by (rule keep[OF that])
    moreover have "\<not> beaconUrlAllowed env (t\<lparr>hasSentPageLoadBeacon := True\<rparr>)
                      (beacon_target (t\<lparr>hasSentPageLoadBeacon := True\<rparr>))"
      by (rule keep) (simp_all add: that)
    ultimately show ?thesis by (simp add: hand_over_def Let_def send)
  qed
  have snap: "transports (snd (hand_over env pl
                (fst (snapshot env (populate env v (s\<lparr>beaconQueued := False\<rparr>))))
                (snd (snapshot env (populate env v (s\<lparr>beaconQueued := False\<rparr>)))))) =
              transports (snd (snapshot env (populate env v (s\<lparr>beaconQueued := False\<rparr>))))" for pl v
    by (rule hand) simp_all
  show ?thesis
    by (simp add: real_sendBeacon_def Let_def snap split: sum.splits)
qed

text \<open>
  C4 (as amended). \<^verbatim>\<open>beaconsSent\<close> never decreases over any sequence of calls, and a call
  of \<^verbatim>\<open>real_sendBeacon\<close> adds exactly one to it when the flush passes the queued flag, the
  plugin check, the DOM check and the URL clean-up, and leaves it unchanged otherwise. The
  increment comes before the rate-limit check and the checks of the beacon URL: a flush
  that is rate-limited, or has no beacon URL, or a beacon URL that is not allowed, invokes
  no transport and is counted all the same.
\<close>

theorem beaconsSent_counts_flushes:
  "beaconsSent s \<le> beaconsSent (run calls s) \<and>
   beaconsSent (snd (real_sendBeacon env s)) =
     (if passes_gates env s then beaconsSent s + 1 else beaconsSent s) \<and>
   (rate_limited env \<or> beacon_target s = [] \<or> \<not> beaconUrlAllowed env s (beacon_target s)
      \<longrightarrow> transports (snd (real_sendBeacon env s)) = transports s)"
  using run_counter[of s calls] real_sendBeacon_counter[of env s]
    rate_limited_no_transport[of env s] no_url_no_transport[of s env]
    not_allowed_no_transport[of env s]
  by blast

theorem beaconsSent_counts_flushes_example:
  "beaconsSent queued \<le> beaconsSent (run [(browser, RunNext)] queued) \<and>
   passes_gates rate_limited_browser queued \<and>
   beaconsSent (snd (real_sendBeacon rate_limited_browser queued)) = beaconsSent queued + 1 \<and>
   transports (snd (real_sendBeacon rate_limited_browser queued)) = transports queued \<and>
   \<not> passes_gates browser configured \<and>
   beaconsSent (snd (real_sendBeacon browser configured)) = beaconsSent configured"
proof -
  have g: "passes_gates rate_limited_browser queued"
    by (simp add: browser_gates queued_facts)
  have n: "\<not> passes_gates browser configured"
    by (simp add: passes_gates_def configured_def initial_def)
  have r: "rate_limited rate_limited_browser"
    by (simp add: rate_limited_browser_def)
  from beaconsSent_counts_flushes[of queued "[(browser, RunNext)]" rate_limited_browser]
       beaconsSent_counts_flushes[of configured "[]" browser] g n r
  show ?thesis by simp
qed

section \<open>Where a flush is sent\<close>

lemma destinations_emit: "destinations (emit es s) = destinations s @ concat (map destination es)"
  by (simp add: destinations_def emit_def)

lemma destinations_updates [simp]:
  "destinations (s\<lparr>beacon_url := u\<rparr>) = destinations s"
  "destinations (s\<lparr>beacon_auth_key := k\<rparr>) = destinations s"
  by (simp_all add: destinations_def)

lemma destinations_fire_public [simp]: "destinations (fire_public env e d s) = destinations s"
  by (simp add: fire_public_def destinations_emit split: option.splits)

lemma destinations_fire_handlers [simp]: "destinations (fire_handlers e d s) = destinations s"
  by (simp add: fire_handlers_def destinations_def emit_def Let_def comp_def)

lemma destinations_noflush [simp]: "destinations (fireEvent_noflush env e d s) = destinations s"
  by (simp add: fireEvent_noflush_def Let_def)







section \<open>Coalesced requests and the one flush\<close>

lemma send_all_keeps:
  "beaconsSent (send_all us s) = beaconsSent s"
  "trace (send_all us s) = trace s"
  unfolding send_all_def by (induction us arbitrary: s) simp_all

lemma passes_checks_cong:
  "beacon_url t = beacon_url s \<Longrightarrow> beacon_url_override t = beacon_url_override s \<Longrightarrow>
   beacon_urls_allowed t = beacon_urls_allowed s \<Longrightarrow>
   passes_checks env data t = passes_checks env data s"
  using beacon_target_keeps[of t s] beaconUrlAllowed_cong[of t s env]
  by (simp add: passes_checks_def)

lemma final_target_cong:
  "beacon_url t = beacon_url s \<Longrightarrow> beacon_url_override t = beacon_url_override s \<Longrightarrow>
   beacon_url_force_https t = beacon_url_force_https s \<Longrightarrow> final_target t = final_target s"
  using beacon_target_keeps[of t s] by (simp add: final_target_def)

lemma transmit_native:
  assumes "native_sendBeacon env" and "native_sendBeacon_queued env" and "beacon_type s \<noteq> ''GET''"
    and "beacon_auth_token s = None" and "\<not> beacon_disable_sendbeacon s"
  shows "transmit env url body s = (Inr True, emit [NavigatorSendBeacon (beacon_url s) (body @ ''&sb=1'')] s)"
  using assms by (simp add: transmit_def Let_def)

lemma sendBeaconData_native:
  assumes "passes_checks env data s" and "native_sendBeacon env" and "native_sendBeacon_queued env"
    and "beacon_type s \<noteq> ''GET''" and "beacon_auth_token s = None"
    and "\<not> beacon_disable_sendbeacon s"
  shows "fst (sendBeaconData env data s) = Inr True"
    and "transports (snd (snd (sendBeaconData env data s))) =
           transports s @
           [NavigatorSendBeacon (final_target s)
              (request_body (fst (params_joined env s data)) @ ''&sb=1'')]"
proof -
  let ?s1 = "s\<lparr>beacon_url := beacon_target s\<rparr>"
  let ?s2 = "fireEvent_noflush env ''beacon'' (Vars data) ?s1"
  let ?s3 = "if beacon_url_force_https ?s2 \<and> starts_with ''//'' (beacon_url ?s2)
             then ?s2\<lparr>beacon_url := ''https:'' @ beacon_url ?s2\<rparr> else ?s2"
  let ?joined = "params_joined env ?s2 data"
  have allowed: "beaconUrlAllowed env ?s1 = beaconUrlAllowed env s"
    by (simp add: beaconUrlAllowed_def fun_eq_iff)
  have j: "?joined = params_joined env s data"
    by (rule params_joined_cong) simp_all
  have unfold: "sendBeaconData env data s =
      (fst (transmit env (request_url (beacon_url ?s3) (fst ?joined)) (request_body (fst ?joined)) ?s3),
       snd ?joined,
       snd (transmit env (request_url (beacon_url ?s3) (fst ?joined)) (request_body (fst ?joined)) ?s3))"
    using assms(1) by (simp add: sendBeaconData_def passes_checks_def Let_def allowed)
  have t3: "beacon_type ?s3 \<noteq> ''GET''" "beacon_auth_token ?s3 = None"
    "\<not> beacon_disable_sendbeacon ?s3" "transports ?s3 = transports s"
    "beacon_url ?s3 = final_target s"
    using assms(4-6) by (simp_all add: final_target_def)
  have tr: "transmit env (request_url (beacon_url ?s3) (fst ?joined)) (request_body (fst ?joined)) ?s3
        = (Inr True, emit [NavigatorSendBeacon (beacon_url ?s3) (request_body (fst ?joined) @ ''&sb=1'')] ?s3)"
    by (rule transmit_native[OF assms(2,3) t3(1-3)])
  show "fst (sendBeaconData env data s) = Inr True"
    by (simp only: unfold tr fst_conv)
  have "transports (snd (snd (sendBeaconData env data s))) =
        transports (emit [NavigatorSendBeacon (beacon_url ?s3) (request_body (fst ?joined) @ ''&sb=1'')] ?s3)"
    by (simp only: unfold tr fst_conv snd_conv)
  also have "\<dots> = transports ?s3 @
        [NavigatorSendBeacon (beacon_url ?s3) (request_body (fst ?joined) @ ''&sb=1'')]"
    by (simp only: transports_emit) simp
  finally show "transports (snd (snd (sendBeaconData env data s))) =
           transports s @
           [NavigatorSendBeacon (final_target s)
              (request_body (fst (params_joined env s data)) @ ''&sb=1'')]"
    by (simp only: t3 j)
qed

lemma hand_over_native:
  assumes "passes_checks env data s" and "native_sendBeacon env" and "native_sendBeacon_queued env"
    and "beacon_type s \<noteq> ''GET''" and "beacon_auth_token s = None"
    and "\<not> beacon_disable_sendbeacon s" and "\<not> rate_limited env"
  shows "fst (hand_over env pl data s) = Inr True"
    and "transports (snd (hand_over env pl data s)) =
           transports s @
           [NavigatorSendBeacon (final_target s)
              (request_body (fst (params_joined env s data)) @ ''&sb=1'')]"
proof -
  let ?s1 = "if \<not> hasSentPageLoadBeacon s \<and> pl then s\<lparr>hasSentPageLoadBeacon := True\<rparr> else s"
  have c: "passes_checks env data ?s1"
    using assms(1) passes_checks_cong[of ?s1 s env data] by simp
  have f: "beacon_type ?s1 \<noteq> ''GET''" "beacon_auth_token ?s1 = None"
    "\<not> beacon_disable_sendbeacon ?s1"
    using assms(4-6) by simp_all
  have ft: "final_target ?s1 = final_target s"
    by (rule final_target_cong) simp_all
  have pj: "params_joined env ?s1 data = params_joined env s data"
    by (rule params_joined_cong) simp_all
  have tr: "transports ?s1 = transports s" by simp
  note sent = sendBeaconData_native[OF c assms(2,3) f]
  have ho: "hand_over env pl data s =
      (case fst (sendBeaconData env data ?s1) of Inl e \<Rightarrow> Inl e | Inr b \<Rightarrow> Inr True,
       if \<not> hasSentPageLoadBeacon s \<and> pl
       then setImmediate (PageLoadBeaconTask (fst (snd (sendBeaconData env data ?s1))))
              (snd (snd (sendBeaconData env data ?s1)))
       else snd (snd (sendBeaconData env data ?s1)))"
    using assms(7) by (simp add: hand_over_def Let_def)
  show "fst (hand_over env pl data s) = Inr True"
    by (simp only: ho fst_conv sent(1)) simp
  have "transports (snd (hand_over env pl data s)) = transports (snd (snd (sendBeaconData env data ?s1)))"
    by (simp only: ho snd_conv) simp
  then show "transports (snd (hand_over env pl data s)) =
           transports s @
           [NavigatorSendBeacon (final_target s)
              (request_body (fst (params_joined env s data)) @ ''&sb=1'')]"
    by (simp only: sent(2) ft pj tr)
qed

lemma real_sendBeacon_passed:
  "passes_gates env s \<Longrightarrow>
   real_sendBeacon env s =
     hand_over env (is_page_load s) (flush_vars env s)
       (snd (snapshot env
              (populate env
                 (snd (url_fields env (strip_query_string s) (impl_r s)
                         (is_spa (js_get (vars s) ''http.initiator'')) (vars s)))
                 (s\<lparr>beaconQueued := False\<rparr>))))"
  by (simp add: real_sendBeacon_def passes_gates_def is_page_load_def flush_vars_def Let_def)

lemma real_sendBeacon_native:
  assumes "passes_gates env s" and "native_ready env s"
  shows "fst (real_sendBeacon env s) = Inr True"
    and "transports (snd (real_sendBeacon env s)) =
           transports s @ [NavigatorSendBeacon (final_target s) (flush_body env s)]"
proof -
  let ?p = "populate env
                 (snd (url_fields env (strip_query_string s) (impl_r s)
                         (is_spa (js_get (vars s) ''http.initiator'')) (vars s)))
                 (s\<lparr>beaconQueued := False\<rparr>)"
  let ?q = "snd (snapshot env ?p)"
  let ?d = "flush_vars env s"
  from assms(2) have n: "\<not> rate_limited env" "native_sendBeacon env" "native_sendBeacon_queued env"
    "beacon_type s \<noteq> ''GET''" "beacon_auth_token s = None" "\<not> beacon_disable_sendbeacon s"
    "passes_checks env ?d s"
    by (simp_all add: native_ready_def)
  have c: "passes_checks env ?d ?q"
    using n(7) passes_checks_cong[of ?q s env ?d] by simp
  have f: "beacon_type ?q \<noteq> ''GET''" "beacon_auth_token ?q = None" "\<not> beacon_disable_sendbeacon ?q"
    using n(4-6) by simp_all
  have ft: "final_target ?q = final_target s"
    by (rule final_target_cong) simp_all
  have pj: "params_joined env ?q ?d = params_joined env s ?d"
    by (rule params_joined_cong) simp_all
  have tr: "transports ?q = transports s" by simp
  note ho = hand_over_native[OF c n(2,3) f n(1), of "is_page_load s"]
  show "fst (real_sendBeacon env s) = Inr True"
    by (simp only: real_sendBeacon_passed[OF assms(1)] ho(1))
  show "transports (snd (real_sendBeacon env s)) =
           transports s @ [NavigatorSendBeacon (final_target s) (flush_body env s)]"
    by (simp only: real_sendBeacon_passed[OF assms(1)] ho(2) ft pj tr flush_body_def)
qed

lemma real_sendBeacon_stopped:
  "\<not> passes_gates env s \<Longrightarrow> transports (snd (real_sendBeacon env s)) = transports s"
  by (auto simp add: real_sendBeacon_def passes_gates_def Let_def split: sum.splits)

lemma passes_gates_tasks: "passes_gates env (s\<lparr>tasks := ts\<rparr>) = passes_gates env s"
  by (simp add: passes_gates_def plugins_complete_def)

lemma run_next_scheduled:
  "tasks s = [RealSendBeaconTask] \<Longrightarrow>
   snd (run_next env s) = snd (real_sendBeacon env (s\<lparr>tasks := []\<rparr>))"
  by (simp add: run_next_def run_task_def Let_def)

text \<open>
  C2 (as amended). \<open>N \<ge> 1\<close> calls of \<^verbatim>\<open>sendBeacon\<close> in a row from a state with no flush
  queued schedule exactly one \<^verbatim>\<open>real_sendBeacon\<close> callback and set the flag, and send
  nothing themselves. A further call while the flag is set schedules nothing and changes
  nothing but the stored override, when it passes one. The invocation of
  \<^verbatim>\<open>real_sendBeacon\<close> that finds the flag set clears it and, when the flush passes its
  guards (plugins complete, DOM available, URL clean-up), does the work of one flush:
  \<^verbatim>\<open>beaconsSent\<close> goes up by exactly one and, where the native primitive is used and
  accepts, exactly one request is handed to it, with the snapshot as its body; when the
  flush does not pass its guards, the counter and the transports are as before, so the
  \<open>N\<close> calls have led to no flush. An invocation that finds the flag cleared returns
  \<^verbatim>\<open>false\<close> and leaves the state as it is. With nothing else in the queue, the scheduled
  callback is that one invocation, and it leaves no further \<^verbatim>\<open>real_sendBeacon\<close> callback
  behind.
\<close>

theorem sendBeacon_coalesces:
  assumes "us \<noteq> []" and "\<not> beaconQueued s"
  shows "let t = send_all us s in
         tasks t = tasks s @ [RealSendBeaconTask] \<and> beaconQueued t \<and>
         beaconsSent t = beaconsSent s \<and> transports t = transports s \<and>
         snd (sendBeacon u t) =
           (case u of None \<Rightarrow> t
            | Some v \<Rightarrow> if v \<noteq> [] then t\<lparr>beacon_url_override := Some v\<rparr> else t) \<and>
         beaconsSent (snd (real_sendBeacon env t)) =
           (if passes_gates env t then beaconsSent s + 1 else beaconsSent s) \<and>
         (\<not> passes_gates env t \<longrightarrow> transports (snd (real_sendBeacon env t)) = transports s) \<and>
         (passes_gates env t \<and> native_ready env t \<longrightarrow>
            fst (real_sendBeacon env t) = Inr True \<and>
            transports (snd (real_sendBeacon env t)) =
              transports s @ [NavigatorSendBeacon (final_target t) (flush_body env t)]) \<and>
         \<not> beaconQueued (snd (real_sendBeacon env t)) \<and>
         real_sendBeacon env' (snd (real_sendBeacon env t)) = (Inr False, snd (real_sendBeacon env t)) \<and>
         (tasks s = [] \<longrightarrow>
            snd (real_sendBeacon env (t\<lparr>tasks := []\<rparr>)) = snd (run_next env t) \<and>
            beaconsSent (snd (run_next env t)) =
              (if passes_gates env t then beaconsSent s + 1 else beaconsSent s) \<and>
            \<not> beaconQueued (snd (run_next env t)) \<and>
            RealSendBeaconTask \<notin> set (tasks (snd (run_next env t))))"
proof -
  define t where "t = send_all us s"
  have ts: "tasks t = tasks s @ [RealSendBeaconTask]"
    using send_all_first(1)[OF assms(1), of s] assms(2) by (simp add: t_def)
  have q: "beaconQueued t"
    unfolding t_def by (rule send_all_first(2)[OF assms(1)])
  have k: "beaconsSent t = beaconsSent s" "transports t = transports s"
    by (simp_all add: t_def send_all_keeps transports_def)
  have further: "snd (sendBeacon u t) =
           (case u of None \<Rightarrow> t
            | Some v \<Rightarrow> if v \<noteq> [] then t\<lparr>beacon_url_override := Some v\<rparr> else t)"
    by (rule sendBeacon_when_queued[OF q])
  have counter: "beaconsSent (snd (real_sendBeacon env t)) =
           (if passes_gates env t then beaconsSent s + 1 else beaconsSent s)"
    by (simp add: real_sendBeacon_counter k)
  have stopped: "transports (snd (real_sendBeacon env t)) = transports s" if "\<not> passes_gates env t"
    using real_sendBeacon_stopped[OF that] k by simp
  have work: "fst (real_sendBeacon env t) = Inr True \<and>
            transports (snd (real_sendBeacon env t)) =
              transports s @ [NavigatorSendBeacon (final_target t) (flush_body env t)]"
    if "passes_gates env t \<and> native_ready env t"
    using real_sendBeacon_native[of env t] that k by simp
  have c: "\<not> beaconQueued (snd (real_sendBeacon env t))"
    by (simp add: real_sendBeacon_clears)
  have idle: "real_sendBeacon env' (snd (real_sendBeacon env t)) = (Inr False, snd (real_sendBeacon env t))"
    by (rule real_sendBeacon_idle[OF c])
  have sched: "snd (real_sendBeacon env (t\<lparr>tasks := []\<rparr>)) = snd (run_next env t) \<and>
            beaconsSent (snd (run_next env t)) =
              (if passes_gates env t then beaconsSent s + 1 else beaconsSent s) \<and>
            \<not> beaconQueued (snd (run_next env t)) \<and>
            RealSendBeaconTask \<notin> set (tasks (snd (run_next env t)))"
    if "tasks s = []"
  proof -
    from that ts have one: "tasks t = [RealSendBeaconTask]" by simp
    have r: "snd (run_next env t) = snd (real_sendBeacon env (t\<lparr>tasks := []\<rparr>))"
      by (rule run_next_scheduled[OF one])
    have b: "beaconsSent (snd (run_next env t)) =
              (if passes_gates env t then beaconsSent s + 1 else beaconsSent s)"
      by (simp add: r real_sendBeacon_counter passes_gates_tasks k)
    have f: "\<not> beaconQueued (snd (run_next env t))"
      by (simp add: r real_sendBeacon_clears)
    obtain d where "tasks (snd (real_sendBeacon env (t\<lparr>tasks := []\<rparr>))) =
       tasks (t\<lparr>tasks := []\<rparr>) @
       (if passes_gates env (t\<lparr>tasks := []\<rparr>) \<and> is_page_load (t\<lparr>tasks := []\<rparr>) \<and>
           \<not> hasSentPageLoadBeacon (t\<lparr>tasks := []\<rparr>)
        then [PageLoadBeaconTask d] else [])"
      using real_sendBeacon_tasks[of env "t\<lparr>tasks := []\<rparr>"] by blast
    then have n: "RealSendBeaconTask \<notin> set (tasks (snd (run_next env t)))"
      by (simp add: r)
    from r[symmetric] b f n show ?thesis by blast
  qed
  from ts q k further counter stopped work c idle sched
  show ?thesis unfolding Let_def t_def[symmetric] by blast
qed

text \<open>
  Three calls with \<^verbatim>\<open>beacon_url\<close> configured: one callback, one request to the native
  primitive; and with a plugin that is not complete, no flush.
\<close>

theorem sendBeacon_coalesces_example:
  "tasks (send_all [None, None, None] configured) = [RealSendBeaconTask] \<and>
   beaconsSent (snd (run_next browser (send_all [None, None, None] configured))) = 1 \<and>
   fst (real_sendBeacon browser (send_all [None, None, None] configured)) = Inr True \<and>
   transports (snd (real_sendBeacon browser (send_all [None, None, None] configured))) =
     [NavigatorSendBeacon ''https://collector.example/b''
        ''u=https%3A%2F%2Fsite.example%2Fpage&v=1.0&vis.st=visible&ua.plt=Linux&ua.vnd=V&pid=p1&n=1&http.initiator=page&sb=1''] \<and>
   fst (real_sendBeacon browser
          (snd (real_sendBeacon browser (send_all [None, None, None] configured)))) = Inr False \<and>
   beaconsSent (snd (real_sendBeacon waiting_plugin_browser
                       (send_all [None, None, None] configured))) = 0 \<and>
   transports (snd (real_sendBeacon waiting_plugin_browser
                      (send_all [None, None, None] configured))) = []"
proof -
  have a: "[None, None, None] \<noteq> ([] :: string option list)" by simp
  have b: "\<not> beaconQueued configured" by (simp add: configured_def initial_def)
  have c: "tasks configured = []" "beaconsSent configured = 0" "transports configured = []"
    by (simp_all add: configured_def initial_def transports_def)
  have g: "passes_gates browser (send_all [None, None, None] configured)" by code_simp
  have r: "native_ready browser (send_all [None, None, None] configured)" by code_simp
  have w: "\<not> passes_gates waiting_plugin_browser (send_all [None, None, None] configured)"
    by code_simp
  have f: "final_target (send_all [None, None, None] configured) = ''https://collector.example/b''"
    by code_simp
  have body: "flush_body browser (send_all [None, None, None] configured) =
    ''u=https%3A%2F%2Fsite.example%2Fpage&v=1.0&vis.st=visible&ua.plt=Linux&ua.vnd=V&pid=p1&n=1&http.initiator=page&sb=1''"
    by code_simp
  from sendBeacon_coalesces[OF a b, of None browser browser]
       sendBeacon_coalesces[OF a b, of None waiting_plugin_browser browser] c g r w f body
  show ?thesis by (simp add: Let_def)
qed

text \<open>
  C2, the claim as stated fails: a call made while the flag is set is not a no-op when it
  passes an override, which is stored and is where the one flush is then sent; and with a
  plugin that is not complete, three calls and the scheduled callback give no flush at all:
  nothing is counted, nothing is sent, and nothing stays scheduled.
\<close>

theorem queued_call_keeps_override:
  "beaconQueued queued \<and> beacon_url_override queued = None \<and>
   beacon_url_override (snd (sendBeacon (Some ''https://other.example/o'') queued)) =
     Some ''https://other.example/o'' \<and>
   destinations (run request_then_override configured) = [''https://other.example/o''] \<and>
   \<not> plugins_complete waiting_plugin_browser configured \<and>
   beaconsSent (run three_requests_waiting configured) = 0 \<and>
   transports (run three_requests_waiting configured) = [] \<and>
   tasks (run three_requests_waiting configured) = [] \<and>
   \<not> beaconQueued (run three_requests_waiting configured)"
  by code_simp

end
